theory Spec2Isabelle
  imports Main "HOL-Library.AList"
begin

section \<open>Data model of \<^verbatim>\<open>app/crud/crud.py\<close>\<close>

text \<open>
  The functions of \<^verbatim>\<open>crud.py\<close> read and write their tables through an ORM session;
  five of the tables are used by the functions embedded here.
  A row is a record holding the columns that \<^verbatim>\<open>crud.py\<close> touches; a table is the
  list of its rows, so that \<^verbatim>\<open>.first()\<close> is the first row that passes the filter.
  Python integers are \<open>int\<close>. The type variable \<open>'d\<close> is Python's \<^verbatim>\<open>datetime\<close>;
  \<^verbatim>\<open>datetime.utcnow()\<close> is an argument of each function that calls it (one argument
  per call), and \<^verbatim>\<open>str\<close> on a datetime is the argument \<open>dstr\<close>.
\<close>

datatype json =
    JNull
  | JBool bool
  | JInt int
  | JStr string
  | JList "json list"
  | JDict "(string \<times> json) list"

text \<open>A Python dict with string keys, in insertion order. \<^verbatim>\<open>d[k] = v\<close> is \<open>AList.update k v d\<close>.\<close>

type_synonym dict = "(string \<times> json) list"

text \<open>
  The exceptions. \<open>ValueError\<close> and \<open>Exception\<close> carry their message, \<open>KeyError\<close> the
  missing key, \<open>TypeError\<close> the keyword that a constructor did not accept.
  \<open>IntegrityError\<close> is the store's refusal of a write that breaks a unique column, and
  \<open>SQLAlchemyError\<close> any other error that the ORM or the store raises for a statement.
\<close>

datatype error =
    ValueError string
  | KeyError string
  | TypeError string
  | Exception string
  | IntegrityError
  | SQLAlchemyError

text \<open>
  \<^verbatim>\<open>str(e)\<close> of an exception; a \<^verbatim>\<open>KeyError\<close> prints its key quoted. The text
  of the other errors is the library's own; no function here reads it, and it is left
  unspecified.
\<close>

fun err_str :: "error \<Rightarrow> string" where
  "err_str (ValueError m) = m"
| "err_str (KeyError k) = [CHR 0x27] @ k @ [CHR 0x27]"
| "err_str (Exception m) = m"

record users =
  u_id :: int
  u_username :: string

record reviewers =
  r_id :: int
  r_user_id :: int

record assessments =
  a_id :: int
  a_name :: string

record 'd assessment_tracker =
  t_id :: int
  t_user_id :: int
  t_assessment_id :: int
  t_reviewer_id :: "int option"
  t_status :: string
  t_latest_commit :: string
  t_last_updated :: 'd
  t_log :: "dict list"

text \<open>
  A value stored in a column of the badges table: the string made by \<^verbatim>\<open>str\<close>, or the
  datetime that \<^verbatim>\<open>strptime\<close> made of it. A badge row is the dict of its columns.
\<close>

datatype 'd fval = FStr string | FDate 'd

type_synonym 'd badge_row = "(string \<times> 'd fval) list"

record 'd tables =
  users_tbl :: "users list"
  reviewers_tbl :: "reviewers list"
  assessments_tbl :: "assessments list"
  trackers_tbl :: "'d assessment_tracker list"
  badges_tbl :: "'d badge_row list"

text \<open>
  The session \<^verbatim>\<open>db\<close>: what the store holds since the last commit, and the tables as the
  open transaction sees them. Queries read \<open>pending\<close>; \<^verbatim>\<open>db.commit()\<close> makes it the
  stored state and \<^verbatim>\<open>db.rollback()\<close> throws it away.

  The store refuses a write that leaves two tracker rows with the same
  \<^verbatim>\<open>latest_commit\<close>, which \<^verbatim>\<open>models.py\<close> declares unique. It does so when the row is
  flushed, inside \<^verbatim>\<open>db.commit()\<close>; here the test is part of the function that
  writes the row, where the row is known, and a refused write leaves the session as it
  was before it. No function of \<^verbatim>\<open>crud.py\<close> catches that error.
\<close>

record 'd session =
  committed :: "'d tables"
  pending :: "'d tables"

definition db_commit :: "'d session \<Rightarrow> 'd session" where
  "db_commit s = s\<lparr>committed := pending s\<rparr>"

definition db_rollback :: "'d session \<Rightarrow> 'd session" where
  "db_rollback s = s\<lparr>pending := committed s\<rparr>"

text \<open>Some row other than those of id \<open>i\<close> holds the commit \<open>c\<close>.\<close>

definition commit_taken :: "'d assessment_tracker list \<Rightarrow> int \<Rightarrow> string \<Rightarrow> bool" where
  "commit_taken rows i c = list_ex (\<lambda>u. t_id u \<noteq> i \<and> t_latest_commit u = c) rows"

text \<open>
  \<^verbatim>\<open>db.add(obj)\<close> for a tracker object that carries a primary key, with \<open>assign\<close>
  for the assignments that the caller made to its attributes. When rows have that key
  the ORM writes the assigned attributes and nothing else (an UPDATE by primary key), so
  each such row \<open>t\<close> becomes \<open>assign t\<close>; the store refuses when that gives a row a new
  \<^verbatim>\<open>latest_commit\<close> that a row of another id holds. An object whose key is in no row
  is inserted with its assignments, unless a row holds its \<^verbatim>\<open>latest_commit\<close>.
\<close>

definition db_add_tracker ::
  "'d session \<Rightarrow> 'd assessment_tracker \<Rightarrow> ('d assessment_tracker \<Rightarrow> 'd assessment_tracker)
     \<Rightarrow> error + 'd session" where
  "db_add_tracker s obj assign =
     (let rows = trackers_tbl (pending s)
      in if list_ex (\<lambda>t. t_id t = t_id obj) rows
         then
           (if list_ex (\<lambda>t. t_id t = t_id obj
                          \<and> t_latest_commit (assign t) \<noteq> t_latest_commit t
                          \<and> commit_taken rows (t_id obj) (t_latest_commit (assign t))) rows
            then Inl IntegrityError
            else Inr (s\<lparr>pending := (pending s)\<lparr>trackers_tbl :=
                          map (\<lambda>t. if t_id t = t_id obj then assign t else t) rows\<rparr>\<rparr>))
         else
           (if list_ex (\<lambda>u. t_latest_commit u = t_latest_commit (assign obj)) rows
            then Inl IntegrityError
            else Inr (s\<lparr>pending := (pending s)\<lparr>trackers_tbl := rows @ [assign obj]\<rparr>\<rparr>)))"

text \<open>
  The primary key that the store gives a new row: one more than the largest key in use
  (and 1 in an empty table).
\<close>

definition next_id :: "int list \<Rightarrow> int" where
  "next_id ids = fold max ids 0 + 1"

text \<open>
  \<^verbatim>\<open>db.add(obj)\<close> for a new tracker object, built without a primary key: \<open>mk\<close> is the
  object still waiting for its key. The store refuses the row when a row holds its
  \<^verbatim>\<open>latest_commit\<close>.
\<close>

definition db_add_new_tracker ::
  "'d session \<Rightarrow> (int \<Rightarrow> 'd assessment_tracker) \<Rightarrow> error + 'd session" where
  "db_add_new_tracker s mk =
     (let rows = trackers_tbl (pending s);
          obj = mk (next_id (map t_id rows))
      in if list_ex (\<lambda>u. t_latest_commit u = t_latest_commit obj) rows
         then Inl IntegrityError
         else Inr (s\<lparr>pending := (pending s)\<lparr>trackers_tbl := rows @ [obj]\<rparr>\<rparr>))"

section \<open>Lookups\<close>

definition get_user_by_username :: "'d session \<Rightarrow> string \<Rightarrow> error + users" where
  "get_user_by_username s username =
     (case find (\<lambda>u. u_username u = username) (users_tbl (pending s)) of
        None \<Rightarrow> Inl (ValueError ''User name does not exist'')
      | Some user \<Rightarrow> Inr user)"

definition get_user_by_id :: "'d session \<Rightarrow> int \<Rightarrow> error + users" where
  "get_user_by_id s user_id =
     (case find (\<lambda>u. u_id u = user_id) (users_tbl (pending s)) of
        None \<Rightarrow> Inl (ValueError ''User ID does not exist'')
      | Some user \<Rightarrow> Inr user)"

definition get_reviewer_by_username :: "'d session \<Rightarrow> string \<Rightarrow> error + reviewers" where
  "get_reviewer_by_username s username =
     (case get_user_by_username s username of
        Inl e \<Rightarrow> Inl e
      | Inr user \<Rightarrow>
          (case find (\<lambda>r. r_user_id r = u_id user) (reviewers_tbl (pending s)) of
             None \<Rightarrow> Inl (ValueError ''Reviewer does not exist'')
           | Some reviewer \<Rightarrow> Inr reviewer))"

definition get_reviewer_by_id :: "'d session \<Rightarrow> int \<Rightarrow> error + reviewers" where
  "get_reviewer_by_id s reviewer_id =
     (case find (\<lambda>r. r_id r = reviewer_id) (reviewers_tbl (pending s)) of
        None \<Rightarrow> Inl (ValueError ''Reviewer does not exist'')
      | Some reviewer \<Rightarrow> Inr reviewer)"

definition get_assessment_by_name :: "'d session \<Rightarrow> string \<Rightarrow> error + assessments" where
  "get_assessment_by_name s assessment_name =
     (case find (\<lambda>a. a_name a = assessment_name) (assessments_tbl (pending s)) of
        None \<Rightarrow> Inl (ValueError ''Assessment does not exist'')
      | Some assessment \<Rightarrow> Inr assessment)"

definition get_assessment_by_id :: "'d session \<Rightarrow> int \<Rightarrow> error + assessments" where
  "get_assessment_by_id s assessment_id =
     (case find (\<lambda>a. a_id a = assessment_id) (assessments_tbl (pending s)) of
        None \<Rightarrow> Inl (ValueError ''Assessment ID does not exist'')
      | Some assessment \<Rightarrow> Inr assessment)"

definition get_assessment_tracker_entry ::
  "'d session \<Rightarrow> int \<Rightarrow> int \<Rightarrow> error + 'd assessment_tracker" where
  "get_assessment_tracker_entry s user_id assessment_id =
     (case find (\<lambda>t. t_user_id t = user_id \<and> t_assessment_id t = assessment_id)
             (trackers_tbl (pending s)) of
        None \<Rightarrow> Inl (ValueError ''Assessment tracker entry unavailable.'')
      | Some entry \<Rightarrow> Inr entry)"

definition get_assessment_tracker_entry_by_id ::
  "'d session \<Rightarrow> int \<Rightarrow> error + 'd assessment_tracker" where
  "get_assessment_tracker_entry_by_id s entry_id =
     (case find (\<lambda>t. t_id t = entry_id) (trackers_tbl (pending s)) of
        None \<Rightarrow> Inl (ValueError ''Assessment tracker entry unavailable.'')
      | Some entry \<Rightarrow> Inr entry)"

definition get_assessment_tracker_entry_by_commit ::
  "'d session \<Rightarrow> string \<Rightarrow> error + 'd assessment_tracker" where
  "get_assessment_tracker_entry_by_commit s commit =
     (case find (\<lambda>t. t_latest_commit t = commit) (trackers_tbl (pending s)) of
        None \<Rightarrow> Inl (ValueError ''Assessment tracker entry unavailable.'')
      | Some entry \<Rightarrow> Inr entry)"

section \<open>The tracker operations\<close>

record init_request =
  ir_username :: string
  ir_assessment_name :: string
  ir_latest_commit :: string

text \<open>
  \<^verbatim>\<open>init_assessment_tracker\<close>. The \<^verbatim>\<open>try\<close> block looks the entry up and raises "already
  exists" when the lookup returns; the handler re-raises every \<^verbatim>\<open>ValueError\<close> whose
  text is not the lookup's "unavailable" and creates the entry otherwise. \<open>now1\<close> and
  \<open>now2\<close> are the two calls of \<^verbatim>\<open>utcnow\<close>. The user is not looked up.
\<close>

definition init_assessment_tracker ::
  "('d \<Rightarrow> string) \<Rightarrow> 'd session \<Rightarrow> init_request \<Rightarrow> int \<Rightarrow> 'd \<Rightarrow> 'd
     \<Rightarrow> (error + bool) \<times> 'd session" where
  "init_assessment_tracker dstr s init_request user_id now1 now2 =
     (case get_assessment_by_name s (ir_assessment_name init_request) of
        Inl e \<Rightarrow> (Inl e, s)
      | Inr assessment \<Rightarrow>
          (let e = (case get_assessment_tracker_entry s user_id (a_id assessment) of
                      Inl e \<Rightarrow> e
                    | Inr _ \<Rightarrow> ValueError ''Assessment tracker entry already exists.'')
           in if err_str e \<noteq> ''Assessment tracker entry unavailable.''
              then (Inl e, s)
              else
                (let db_obj = (\<lambda>i. \<lparr>t_id = i,
                       t_user_id = user_id,
                       t_assessment_id = a_id assessment,
                       t_reviewer_id = None,
                       t_status = ''Initiated'',
                       t_latest_commit = ir_latest_commit init_request,
                       t_last_updated = now1,
                       t_log = [[(''status'', JStr ''Initiated''),
                                 (''timestamp'', JStr (dstr now2)),
                                 (''commit'', JStr (ir_latest_commit init_request))]]\<rparr>)
                 in case db_add_new_tracker s db_obj of
                      Inl e' \<Rightarrow> (Inl e', s)
                    | Inr s' \<Rightarrow> (Inr True, db_commit s'))))"

text \<open>
  \<^verbatim>\<open>update_assessment_log\<close>. The caller's dict \<open>update_logs\<close> gets the keys
  \<^verbatim>\<open>commit\<close> and \<^verbatim>\<open>timestamp\<close> and is appended to a copy of the log.
\<close>

definition update_assessment_log ::
  "('d \<Rightarrow> string) \<Rightarrow> 'd session \<Rightarrow> int \<Rightarrow> string \<Rightarrow> dict \<Rightarrow> 'd
     \<Rightarrow> (error + bool) \<times> 'd session" where
  "update_assessment_log dstr s entry_id latest_commit update_logs now =
     (case get_assessment_tracker_entry_by_id s entry_id of
        Inl e \<Rightarrow> (Inl e, s)
      | Inr entry \<Rightarrow>
          (let update_logs1 = AList.update ''commit'' (JStr latest_commit) update_logs;
               update_logs2 = AList.update ''timestamp'' (JStr (dstr now)) update_logs1;
               assign = (\<lambda>t. t\<lparr>t_last_updated := now,
                               t_latest_commit := latest_commit,
                               t_log := t_log entry @ [update_logs2]\<rparr>)
           in case db_add_tracker s entry assign of
                Inl e \<Rightarrow> (Inl e, s)
              | Inr s' \<Rightarrow> (Inr True, db_commit s')))"

text \<open>
  The dict that \<^verbatim>\<open>assign_reviewer\<close> receives, in the format its docstring gives:
  \<^verbatim>\<open>{ "reviewer_id": int, "reviewer_username": str }\<close>.
\<close>

record reviewer_info =
  ri_reviewer_id :: int
  ri_reviewer_username :: string

definition reviewer_info_dict :: "reviewer_info \<Rightarrow> dict" where
  "reviewer_info_dict ri =
     [(''reviewer_id'', JInt (ri_reviewer_id ri)),
      (''reviewer_username'', JStr (ri_reviewer_username ri))]"

text \<open>
  \<^verbatim>\<open>assign_reviewer\<close>: two commits, the first of the entry with its reviewer, status
  and time set, the second inside \<^verbatim>\<open>update_assessment_log\<close>, which gets a deep copy
  of the dict. The commit expires the object, so the \<^verbatim>\<open>latest_commit\<close> that is read
  from it for the second call is the one of its row.
\<close>

definition assign_reviewer ::
  "('d \<Rightarrow> string) \<Rightarrow> 'd session \<Rightarrow> 'd assessment_tracker \<Rightarrow> reviewer_info \<Rightarrow> 'd \<Rightarrow> 'd
     \<Rightarrow> (error + bool) \<times> 'd session" where
  "assign_reviewer dstr s assessment_tracker_entry ri now1 now2 =
     (let assign = (\<lambda>t. t\<lparr>t_reviewer_id := Some (ri_reviewer_id ri),
                            t_status := ''Under review'',
                            t_last_updated := now1\<rparr>)
      in case db_add_tracker s assessment_tracker_entry assign of
           Inl e \<Rightarrow> (Inl e, s)
         | Inr s1 \<Rightarrow>
             (let s' = db_commit s1;
                  latest_commit =
                    (case get_assessment_tracker_entry_by_id s' (t_id assessment_tracker_entry) of
                       Inl e \<Rightarrow> t_latest_commit assessment_tracker_entry
                     | Inr row \<Rightarrow> t_latest_commit row)
              in case update_assessment_log dstr s' (t_id assessment_tracker_entry)
                        latest_commit (reviewer_info_dict ri) now2 of
                   (Inl e, s'') \<Rightarrow> (Inl e, s'')
                 | (Inr ok, s'') \<Rightarrow> (Inr True, s'')))"

text \<open>
  \<^verbatim>\<open>approve_assessment\<close>. \<open>verify_check\<close> is \<^verbatim>\<open>utils.verify_check\<close>, the collaborator
  that reports whether the checks of the entry's latest commit passed.
\<close>

definition approve_assessment ::
  "('d assessment_tracker \<Rightarrow> bool) \<Rightarrow> ('d \<Rightarrow> string) \<Rightarrow> 'd session \<Rightarrow> users \<Rightarrow> reviewers
     \<Rightarrow> string \<Rightarrow> assessments \<Rightarrow> 'd \<Rightarrow> 'd \<Rightarrow> (error + bool) \<times> 'd session" where
  "approve_assessment verify_check dstr s trainee reviewer reviewer_username assessment
       now1 now2 =
     (if r_user_id reviewer = u_id trainee
      then (Inl (ValueError ''Reviewer cannot be the same as the trainee.''), s)
      else
        (case get_assessment_tracker_entry s (u_id trainee) (a_id assessment) of
           Inl e \<Rightarrow> (Inl e, s)
         | Inr entry \<Rightarrow>
             (case t_reviewer_id entry of
                None \<Rightarrow> (Inl (ValueError ''No reviewer is assigned to the assessment.''), s)
              | Some rid \<Rightarrow>
                  (if t_status entry \<noteq> ''Under review''
                   then (Inl (ValueError ''Assessment is not under review.''), s)
                   else if \<not> verify_check entry
                   then (Inl (ValueError ''Last commit checks failed.''), s)
                   else
                     (case get_reviewer_by_id s rid of
                        Inl e \<Rightarrow> (Inl e, s)
                      | Inr reviewer_real \<Rightarrow>
                          (case get_user_by_id s (r_user_id reviewer_real) of
                             Inl e \<Rightarrow> (Inl e, s)
                           | Inr reviewer_real_user \<Rightarrow>
                               (if u_username reviewer_real_user \<noteq> reviewer_username
                                then (Inl (ValueError
                                  ''Reviewer is not the same as the reviewer assigned to the assessment.''), s)
                                else
                                  (let latest_commit = t_latest_commit entry;
                                       log = [(''timestamp'', JStr (dstr now2)),
                                              (''status'', JStr ''Approved''),
                                              (''commit'', JStr latest_commit),
                                              (''Reviewer'', JInt (r_id reviewer))];
                                       assign = (\<lambda>t. t\<lparr>t_status := ''Approved'',
                                                       t_last_updated := now1,
                                                       t_log := t_log entry @ [log]\<rparr>)
                                   in case db_add_tracker s entry assign of
                                        Inl e \<Rightarrow> (Inl e, s)
                                      | Inr s' \<Rightarrow> (Inr True, db_commit s')))))))))"

section \<open>Reviewer selection\<close>

text \<open>
  Python list indexing: a negative index counts from the end; \<open>None\<close> is
  \<^verbatim>\<open>IndexError\<close>.
\<close>

definition py_index :: "'a list \<Rightarrow> int \<Rightarrow> 'a option" where
  "py_index xs i =
     (if 0 \<le> i \<and> i < int (length xs) then Some (xs ! nat i)
      else if i < 0 \<and> - int (length xs) \<le> i then Some (xs ! nat (int (length xs) + i))
      else None)"

text \<open>
  \<^verbatim>\<open>select_reviewer\<close>. \<open>randint\<close> is \<^verbatim>\<open>random.randint\<close>. On an empty list the call
  \<^verbatim>\<open>randint(0, -1)\<close> raises and on a non-empty one an index out of range would: both
  end in the same handler, which raises "No reviewer available".
\<close>

definition select_reviewer ::
  "(int \<Rightarrow> int \<Rightarrow> int) \<Rightarrow> 'd session \<Rightarrow> 'd assessment_tracker \<Rightarrow> error + reviewers" where
  "select_reviewer randint s assessment_tracker_entry =
     (let invalid_rev = map r_id (filter
            (\<lambda>r. r_user_id r = t_user_id assessment_tracker_entry)
            (reviewers_tbl (pending s)));
          valid_reviewers = map r_id (filter
            (\<lambda>r. r_id r \<notin> set invalid_rev) (reviewers_tbl (pending s)))
      in case (if valid_reviewers = [] then None
               else py_index valid_reviewers
                      (randint 0 (int (length valid_reviewers) - 1))) of
           None \<Rightarrow> Inl (ValueError ''No reviewer available. Please contact the administrator.'')
         | Some random_id \<Rightarrow>
             (case get_reviewer_by_id s random_id of
                Inl e \<Rightarrow> Inl (Exception
                  (''Error selecting reviewer. Contact the administrators. Error string: ''
                     @ err_str e))
              | Inr random_reviewer \<Rightarrow> Inr random_reviewer))"

section \<open>Badge catalog synchronisation\<close>

text \<open>
  What \<^verbatim>\<open>sync_badges\<close> takes from outside \<^verbatim>\<open>crud.py\<close>:
  \<^item> \<open>e_str\<close>, Python's \<^verbatim>\<open>str\<close> on a value of the fetched JSON that is a number, a
    list or a dict;
  \<^item> \<open>e_strptime\<close>, \<^verbatim>\<open>datetime.strptime\<close>, with \<open>None\<close> for its \<^verbatim>\<open>ValueError\<close>;
  \<^item> \<open>e_columns\<close>, the keys that \<^verbatim>\<open>models.Badges\<close> accepts (the class is not part
    of the sources at hand);
  \<^item> \<open>e_bind\<close>, what the store makes of a comparison of the \<^verbatim>\<open>name\<close> column with
    a value that is neither a string nor \<^verbatim>\<open>None\<close>: the rows it selects, or its error.
\<close>

record 'd env =
  e_str :: "json \<Rightarrow> string"
  e_strptime :: "string \<Rightarrow> string \<Rightarrow> 'd option"
  e_columns :: "string list"
  e_bind :: "json \<Rightarrow> error + ('d badge_row \<Rightarrow> bool)"

text \<open>\<^verbatim>\<open>str(v)\<close> for a value of the fetched JSON.\<close>

fun py_str :: "(json \<Rightarrow> string) \<Rightarrow> json \<Rightarrow> string" where
  "py_str other (JStr x) = x"
| "py_str other JNull = ''None''"
| "py_str other (JBool b) = (if b then ''True'' else ''False'')"
| "py_str other v = other v"

text \<open>The two formats that \<^verbatim>\<open>sync_badges\<close> gives to \<^verbatim>\<open>datetime.strptime\<close>.\<close>

definition fmt_frac :: string where
  "fmt_frac = ''%Y-%m-%dT%H:%M:%S.%fZ''"

definition fmt_nofrac :: string where
  "fmt_nofrac = ''%Y-%m-%dT%H:%M:%SZ''"

text \<open>
  The body of the loop over \<^verbatim>\<open>fields.items()\<close>, for one value. Every value is a
  \<^verbatim>\<open>str\<close> here, so the test \<^verbatim>\<open>type(v) == str\<close> always passes.
\<close>

definition convert_field :: "(string \<Rightarrow> string \<Rightarrow> 'd option) \<Rightarrow> string \<Rightarrow> 'd fval" where
  "convert_field strptime v =
     (case strptime v fmt_frac of
        Some d \<Rightarrow> FDate d
      | None \<Rightarrow>
          (case strptime v fmt_nofrac of
             Some d \<Rightarrow> FDate d
           | None \<Rightarrow> FStr v))"

fun convert_fields ::
  "(string \<Rightarrow> string \<Rightarrow> 'd option) \<Rightarrow> (string \<times> string) list \<Rightarrow> 'd badge_row" where
  "convert_fields strptime [] = []"
| "convert_fields strptime ((k, v) # flds) =
     (k, convert_field strptime v) # convert_fields strptime flds"

text \<open>
  \<^verbatim>\<open>db.query(models.Badges).filter_by(name=v)\<close> with the raw value \<open>v\<close> of the
  record's name: for a string, the rows whose \<^verbatim>\<open>name\<close> column holds that string
  (a column that holds a datetime equals no string); for \<^verbatim>\<open>None\<close> the test is
  \<^verbatim>\<open>name IS NULL\<close>, the rows without a name; for any other value, what the store
  makes of it.
\<close>

fun name_filter ::
  "(json \<Rightarrow> error + ('d badge_row \<Rightarrow> bool)) \<Rightarrow> json \<Rightarrow> error + ('d badge_row \<Rightarrow> bool)" where
  "name_filter bind (JStr n) = Inr (\<lambda>row. map_of row ''name'' = Some (FStr n))"
| "name_filter bind JNull = Inr (\<lambda>row. map_of row ''name'' = None)"
| "name_filter bind v = bind v"

text \<open>
  \<^verbatim>\<open>db.add(models.Badges(**fields))\<close>: the constructor raises \<^verbatim>\<open>TypeError\<close> at the
  first key that the class does not accept; otherwise the new row has the given columns.
\<close>

definition db_add_badge :: "string list \<Rightarrow> 'd session \<Rightarrow> 'd badge_row \<Rightarrow> error + 'd session" where
  "db_add_badge columns s flds =
     (case find (\<lambda>k. k \<notin> set columns) (map fst flds) of
        Some k \<Rightarrow> Inl (TypeError k)
      | None \<Rightarrow>
          Inr (s\<lparr>pending := (pending s)\<lparr>badges_tbl := badges_tbl (pending s) @ [flds]\<rparr>\<rparr>))"

text \<open>
  \<^verbatim>\<open>current_badge.update(values=fields)\<close>: the statement is refused when a key is
  not a column; otherwise every row the query selects gets the columns of \<open>flds\<close> (the
  dict \<^verbatim>\<open>fields\<close>), its other columns stay.
\<close>

definition query_update_badges ::
  "string list \<Rightarrow> 'd session \<Rightarrow> ('d badge_row \<Rightarrow> bool) \<Rightarrow> 'd badge_row \<Rightarrow> error + 'd session" where
  "query_update_badges columns s named flds =
     (if list_ex (\<lambda>k. k \<notin> set columns) (map fst flds)
      then Inl SQLAlchemyError
      else Inr (s\<lparr>pending := (pending s)\<lparr>badges_tbl :=
                    map (\<lambda>row. if named row then AList.merge row flds else row)
                      (badges_tbl (pending s))\<rparr>\<rparr>))"

text \<open>
  The body of the loop over the fetched catalog, for one record \<open>badge\<close>. The first
  statement, \<^verbatim>\<open>print(badge['name'])\<close>, raises \<^verbatim>\<open>KeyError\<close> on a record without a
  name. The query is built from the raw name before the fields are converted and is run
  after, by \<^verbatim>\<open>current_badge.first()\<close>; the table does not change in between. No
  statement that raises has written to the session before it does.
\<close>

definition sync_badge :: "'d env \<Rightarrow> 'd session \<Rightarrow> (string \<times> json) list \<Rightarrow> error + 'd session" where
  "sync_badge env s badge =
     (case map_of badge ''name'' of
        None \<Rightarrow> Inl (KeyError ''name'')
      | Some nm \<Rightarrow>
          (let flds = convert_fields (e_strptime env)
                        (map (\<lambda>(k, v). (k, py_str (e_str env) v)) badge)
           in case name_filter (e_bind env) nm of
                Inl e \<Rightarrow> Inl e
              | Inr named \<Rightarrow>
                  (if filter named (badges_tbl (pending s)) = []
                   then (case db_add_badge (e_columns env) s flds of
                           Inl e \<Rightarrow> Inl e
                         | Inr s' \<Rightarrow> Inr (db_commit s'))
                   else (case query_update_badges (e_columns env) s named flds of
                           Inl e \<Rightarrow> Inl e
                         | Inr s' \<Rightarrow> Inr (db_commit s')))))"

text \<open>
  The loop, inside its \<^verbatim>\<open>try\<close>: the first record that raises ends it, the handler
  calls \<^verbatim>\<open>db.rollback()\<close> and raises the error again.
\<close>

fun sync_loop ::
  "'d env \<Rightarrow> 'd session \<Rightarrow> (string \<times> json) list list \<Rightarrow> (error + unit) \<times> 'd session" where
  "sync_loop env s [] = (Inr (), s)"
| "sync_loop env s (badge # badgelst) =
     (case sync_badge env s badge of
        Inl e \<Rightarrow> (Inl e, db_rollback s)
      | Inr s' \<Rightarrow> sync_loop env s' badgelst)"

text \<open>
  \<^verbatim>\<open>sync_badges\<close>. \<open>fetched\<close> is what the two calls to the external service end in:
  the list under \<^verbatim>\<open>'result'\<close>, or the error they raise, which is raised again
  before the session is touched.
\<close>

definition sync_badges ::
  "'d env \<Rightarrow> 'd session \<Rightarrow> error + (string \<times> json) list list
     \<Rightarrow> (error + unit) \<times> 'd session" where
  "sync_badges env s fetched =
     (case fetched of
        Inl e \<Rightarrow> (Inl e, s)
      | Inr badgelst \<Rightarrow> sync_loop env s badgelst)"

text \<open>
  A record that no statement of the loop body raises on: it has a name, the store
  takes the comparison with that name, and the class accepts every key.
\<close>

definition badge_accepted :: "'d env \<Rightarrow> (string \<times> json) list \<Rightarrow> bool" where
  "badge_accepted env badge =
     (case map_of badge ''name'' of
        None \<Rightarrow> False
      | Some nm \<Rightarrow>
          (case name_filter (e_bind env) nm of
             Inl e \<Rightarrow> False
           | Inr named \<Rightarrow> list_all (\<lambda>k. k \<in> set (e_columns env)) (map fst badge)))"

section \<open>Example data\<close>

text \<open>
  A small store for the concrete instances below: three users, each of them a reviewer,
  one assessment, and one tracker entry of user 42 whose reviewer, status and log are
  arguments. A datetime is written as the string that \<^verbatim>\<open>str\<close> makes of it.
\<close>

definition ex_dstr :: "string \<Rightarrow> string" where
  "ex_dstr d = d"

definition ex_tables :: "string assessment_tracker list \<Rightarrow> string badge_row list \<Rightarrow> string tables" where
  "ex_tables rows badges =
     \<lparr>users_tbl = [\<lparr>u_id = 42, u_username = ''alice''\<rparr>,
                   \<lparr>u_id = 43, u_username = ''bob''\<rparr>,
                   \<lparr>u_id = 44, u_username = ''carol''\<rparr>],
      reviewers_tbl = [\<lparr>r_id = 7, r_user_id = 43\<rparr>,
                       \<lparr>r_id = 8, r_user_id = 44\<rparr>,
                       \<lparr>r_id = 9, r_user_id = 42\<rparr>],
      assessments_tbl = [\<lparr>a_id = 1, a_name = ''Python I''\<rparr>],
      trackers_tbl = rows,
      badges_tbl = badges\<rparr>"

definition ex_session :: "string assessment_tracker list \<Rightarrow> string badge_row list \<Rightarrow> string session" where
  "ex_session rows badges =
     \<lparr>committed = ex_tables rows badges, pending = ex_tables rows badges\<rparr>"

definition ex_entry :: "int option \<Rightarrow> string \<Rightarrow> dict list \<Rightarrow> string assessment_tracker" where
  "ex_entry rid st lg =
     \<lparr>t_id = 1, t_user_id = 42, t_assessment_id = 1, t_reviewer_id = rid, t_status = st,
      t_latest_commit = ''abc123'', t_last_updated = ''2022-06-01 09:00:00'', t_log = lg\<rparr>"

definition ex_trainee :: users where
  "ex_trainee = \<lparr>u_id = 42, u_username = ''alice''\<rparr>"

definition ex_assessment :: assessments where
  "ex_assessment = \<lparr>a_id = 1, a_name = ''Python I''\<rparr>"

definition ex_request :: init_request where
  "ex_request = \<lparr>ir_username = ''alice'', ir_assessment_name = ''Python I'',
                  ir_latest_commit = ''abc123''\<rparr>"

text \<open>
  A stand-in for \<^verbatim>\<open>strptime\<close> that knows two strings, one for each format of
  \<^verbatim>\<open>sync_badges\<close>, and fails on every other input.
\<close>

definition ex_strptime :: "string \<Rightarrow> string \<Rightarrow> string option" where
  "ex_strptime v fmt =
     (if v = ''2022-01-05T10:00:00.500000Z'' \<and> fmt = ''%Y-%m-%dT%H:%M:%S.%fZ''
      then Some ''2022-01-05 10:00:00.500000''
      else if v = ''2022-01-05T10:00:00Z'' \<and> fmt = ''%Y-%m-%dT%H:%M:%SZ''
      then Some ''2022-01-05 10:00:00''
      else None)"

text \<open>
  The outside of \<^verbatim>\<open>sync_badges\<close> for the instances: a class with seven columns, a
  store that refuses to compare a name with a number, a list or a dict.
\<close>

definition ex_env :: "string env" where
  "ex_env =
     \<lparr>e_str = (\<lambda>v. ''[]''),
      e_strptime = ex_strptime,
      e_columns = [''entityId'', ''name'', ''description'', ''image'', ''createdAt'',
                   ''updatedAt'', ''expires''],
      e_bind = (\<lambda>v. Inl SQLAlchemyError)\<rparr>"

lemmas ex_defs = ex_dstr_def ex_tables_def ex_session_def ex_entry_def ex_trainee_def
  ex_assessment_def ex_request_def

lemmas sync_defs = sync_badges_def sync_badge_def db_add_badge_def query_update_badges_def
  db_commit_def db_rollback_def convert_field_def fmt_frac_def fmt_nofrac_def ex_strptime_def
  ex_env_def AList.merge_def Let_def

lemmas lookup_defs = get_user_by_id_def get_reviewer_by_id_def get_assessment_by_name_def
  get_assessment_tracker_entry_def get_assessment_tracker_entry_by_id_def

section \<open>Facts about the store\<close>

lemma find_SomeD: "find P xs = Some x \<Longrightarrow> P x \<and> x \<in> set xs"
  by (auto simp: find_Some_iff)

lemma py_index_mem: "py_index xs i = Some x \<Longrightarrow> x \<in> set xs"
  by (auto simp: py_index_def split: if_splits)

lemma find_map_assign:
  "find P xs = Some x \<Longrightarrow> Q x \<Longrightarrow> (\<And>t. P (f t) = P t) \<Longrightarrow>
     find P (map (\<lambda>t. if Q t then f t else t) xs) = Some (f x)"
  by (induction xs) (auto split: if_splits)

lemma list_ex_find: "find P xs = Some x \<Longrightarrow> list_ex P xs"
  by (auto simp: list_ex_iff dest: find_SomeD)

lemma find_mem_Some: "x \<in> set xs \<Longrightarrow> P x \<Longrightarrow> \<exists>y. find P xs = Some y"
  by (cases "find P xs") (auto simp: find_None_iff)

lemma find_append_new: "find P xs = None \<Longrightarrow> P y \<Longrightarrow> find P (xs @ [y]) = Some y"
  by (induction xs) (auto split: if_splits)

lemma distinct_id_unique:
  "distinct (map t_id rows) \<Longrightarrow> t \<in> set rows \<Longrightarrow> e \<in> set rows \<Longrightarrow> t_id t = t_id e
     \<Longrightarrow> t = e"
  by (auto simp: distinct_map dest: inj_onD)

text \<open>
  Writing back an object whose key is in the table: the write goes through when no
  assignment gives a row a commit that a row of another id holds.
\<close>

lemma db_add_tracker_update:
  assumes "list_ex (\<lambda>t. t_id t = t_id obj) (trackers_tbl (pending s))"
    and "\<And>t. t \<in> set (trackers_tbl (pending s)) \<Longrightarrow> t_id t = t_id obj \<Longrightarrow>
           t_latest_commit (assign t) = t_latest_commit t
           \<or> \<not> commit_taken (trackers_tbl (pending s)) (t_id obj) (t_latest_commit (assign t))"
  shows "db_add_tracker s obj assign =
           Inr (s\<lparr>pending := (pending s)\<lparr>trackers_tbl :=
                  map (\<lambda>t. if t_id t = t_id obj then assign t else t)
                    (trackers_tbl (pending s))\<rparr>\<rparr>)"
proof -
  have "\<not> list_ex (\<lambda>t. t_id t = t_id obj
                          \<and> t_latest_commit (assign t) \<noteq> t_latest_commit t
                          \<and> commit_taken (trackers_tbl (pending s)) (t_id obj)
                                (t_latest_commit (assign t)))
            (trackers_tbl (pending s))"
    using assms(2) by (auto simp: list_ex_iff)
  with assms(1) show ?thesis
    by (simp add: db_add_tracker_def Let_def)
qed

lemma db_add_tracker_cases:
  "db_add_tracker s obj assign = Inl IntegrityError
   \<or> (\<exists>s'. db_add_tracker s obj assign = Inr s')"
  by (simp add: db_add_tracker_def Let_def)

lemma commit_taken_iff:
  "commit_taken rows i c \<longleftrightarrow> (\<exists>u\<in>set rows. t_id u \<noteq> i \<and> t_latest_commit u = c)"
  by (auto simp: commit_taken_def list_ex_iff)

text \<open>The lookup of a tracker entry either misses, with its one error, or finds a row.\<close>

lemma tracker_entry_cases:
  "get_assessment_tracker_entry s uid aid
       = Inl (ValueError ''Assessment tracker entry unavailable.'')
     \<and> find (\<lambda>t. t_user_id t = uid \<and> t_assessment_id t = aid) (trackers_tbl (pending s))
         = None
   \<or> (\<exists>e. get_assessment_tracker_entry s uid aid = Inr e
        \<and> find (\<lambda>t. t_user_id t = uid \<and> t_assessment_id t = aid) (trackers_tbl (pending s))
            = Some e)"
  by (simp add: get_assessment_tracker_entry_def split: option.splits)

lemma tracker_by_id_SomeD:
  "get_assessment_tracker_entry_by_id s i = Inr e \<Longrightarrow>
     find (\<lambda>t. t_id t = i) (trackers_tbl (pending s)) = Some e"
  by (auto simp: get_assessment_tracker_entry_by_id_def split: option.splits)

text \<open>The key of a new row is in no row of the table.\<close>

lemma fold_max_ge: "(a::int) \<le> fold max xs a \<and> (\<forall>x\<in>set xs. x \<le> fold max xs a)"
proof (induction xs arbitrary: a)
  case Nil
  show ?case by simp
next
  case (Cons y ys)
  from Cons.IH [of "max y a"] show ?case by auto
qed

lemma next_id_fresh: "next_id ids \<notin> set ids"
  using fold_max_ge [of 0 ids] by (auto simp: next_id_def)

section \<open>Properties of reviewer selection\<close>

text \<open>
  C7. Whenever \<^verbatim>\<open>select_reviewer\<close> returns a reviewer, whatever the random source
  gives, the reviewer is a row of the reviewers table whose user is not the trainee of
  the tracker entry, and its id is in the set of all reviewer ids minus the ids of the
  reviewers that belong to the trainee's own user id.
\<close>

theorem select_reviewer_not_trainee:
  assumes "select_reviewer randint s entry = Inr r"
  shows "r_user_id r \<noteq> t_user_id entry
     \<and> r \<in> set (reviewers_tbl (pending s))
     \<and> r_id r \<in> set (map r_id (reviewers_tbl (pending s)))
          - set (map r_id (filter (\<lambda>x. r_user_id x = t_user_id entry)
                   (reviewers_tbl (pending s))))"
proof -
  let ?rs = "reviewers_tbl (pending s)"
  let ?invalid = "map r_id (filter (\<lambda>x. r_user_id x = t_user_id entry) ?rs)"
  let ?valid = "map r_id (filter (\<lambda>x. r_id x \<notin> set ?invalid) ?rs)"
  from assms obtain random_id where
    idx: "py_index ?valid (randint 0 (int (length ?valid) - 1)) = Some random_id"
    and get: "get_reviewer_by_id s random_id = Inr r"
    by (auto simp: select_reviewer_def Let_def split: option.splits sum.splits if_splits)
  from idx have "random_id \<in> set ?valid" by (rule py_index_mem)
  then have notin: "random_id \<notin> set ?invalid" by auto
  from get have "find (\<lambda>x. r_id x = random_id) ?rs = Some r"
    by (auto simp: get_reviewer_by_id_def split: option.splits)
  then have r: "r_id r = random_id" "r \<in> set ?rs" by (auto dest: find_SomeD)
  from r notin have "r_user_id r \<noteq> t_user_id entry" by auto
  with r notin show ?thesis by auto
qed

theorem select_reviewer_not_trainee_witness:
  "select_reviewer (\<lambda>a b. b) (ex_session [] []) (ex_entry None ''Initiated'' [])
     = Inr \<lparr>r_id = 8, r_user_id = 44\<rparr>
   \<and> r_user_id \<lparr>r_id = 8, r_user_id = 44\<rparr> \<noteq> t_user_id (ex_entry None ''Initiated'' [])"
proof -
  have h: "select_reviewer (\<lambda>a b. b) (ex_session [] []) (ex_entry None ''Initiated'' [])
     = Inr \<lparr>r_id = 8, r_user_id = 44\<rparr>"
    by (simp add: select_reviewer_def get_reviewer_by_id_def py_index_def ex_defs)
  show ?thesis using h select_reviewer_not_trainee [OF h] by simp
qed

section \<open>Properties of initiation\<close>

lemma init_assessment_tracker_exists:
  assumes "get_assessment_by_name s (ir_assessment_name req) = Inr a"
    and "get_assessment_tracker_entry s uid (a_id a) = Inr e"
  shows "init_assessment_tracker dstr s req uid now1 now2 =
           (Inl (ValueError ''Assessment tracker entry already exists.''), s)"
  using assms by (simp add: init_assessment_tracker_def)

lemma init_assessment_tracker_new:
  assumes "get_assessment_by_name s (ir_assessment_name req) = Inr a"
    and "find (\<lambda>t. t_user_id t = uid \<and> t_assessment_id t = a_id a) (trackers_tbl (pending s))
           = None"
    and "\<forall>t\<in>set (trackers_tbl (pending s)). t_latest_commit t \<noteq> ir_latest_commit req"
  shows "\<exists>new. init_assessment_tracker dstr s req uid now1 now2 =
           (Inr True,
            \<lparr>committed = (pending s)\<lparr>trackers_tbl := trackers_tbl (pending s) @ [new]\<rparr>,
             pending = (pending s)\<lparr>trackers_tbl := trackers_tbl (pending s) @ [new]\<rparr>\<rparr>)
         \<and> new = \<lparr>t_id = next_id (map t_id (trackers_tbl (pending s))),
                 t_user_id = uid, t_assessment_id = a_id a, t_reviewer_id = None,
                 t_status = ''Initiated'', t_latest_commit = ir_latest_commit req,
                 t_last_updated = now1,
                 t_log = [[(''status'', JStr ''Initiated''),
                           (''timestamp'', JStr (dstr now2)),
                           (''commit'', JStr (ir_latest_commit req))]]\<rparr>"
proof -
  from assms(3) have "\<not> list_ex (\<lambda>u. t_latest_commit u = ir_latest_commit req)
                         (trackers_tbl (pending s))"
    by (auto simp: list_ex_iff)
  with assms(1,2) show ?thesis
    by (simp add: init_assessment_tracker_def get_assessment_tracker_entry_def
        db_add_new_tracker_def db_commit_def Let_def)
qed

text \<open>
  When no entry of the pair exists but some entry holds the request's commit, the store
  refuses the new row: the call ends in the store's error and nothing is created.
\<close>

lemma init_assessment_tracker_commit_taken:
  assumes "get_assessment_by_name s (ir_assessment_name req) = Inr a"
    and "find (\<lambda>t. t_user_id t = uid \<and> t_assessment_id t = a_id a) (trackers_tbl (pending s))
           = None"
    and "t \<in> set (trackers_tbl (pending s))"
    and "t_latest_commit t = ir_latest_commit req"
  shows "init_assessment_tracker dstr s req uid now1 now2 = (Inl IntegrityError, s)"
proof -
  from assms(3,4) have "list_ex (\<lambda>u. t_latest_commit u = ir_latest_commit req)
                          (trackers_tbl (pending s))"
    by (auto simp: list_ex_iff)
  with assms(1,2) show ?thesis
    by (simp add: init_assessment_tracker_def get_assessment_tracker_entry_def
        db_add_new_tracker_def Let_def)
qed

text \<open>
  C4. For a user and an assessment that the request's name resolves to: when a tracker
  entry of the pair exists, \<^verbatim>\<open>init_assessment_tracker\<close> fails with "Assessment tracker
  entry already exists." and leaves the session as it was, whatever the request's commit
  is. When none exists and no entry holds the request's commit (the column is unique in
  the store), it succeeds, appends one row for the pair to the tracker table and
  commits. The new row has status Initiated, no reviewer, the request's commit, and a
  log of the one record \<^verbatim>\<open>{status: Initiated, timestamp, commit}\<close>; it is the entry of
  the pair from then on, and every further call for the pair on the session so reached
  fails with "already exists" and changes nothing.
\<close>

theorem init_assessment_tracker_once:
  assumes "get_assessment_by_name s (ir_assessment_name req) = Inr a"
  shows "((\<exists>e. get_assessment_tracker_entry s uid (a_id a) = Inr e) \<longrightarrow>
            init_assessment_tracker dstr s req uid now1 now2 =
              (Inl (ValueError ''Assessment tracker entry already exists.''), s))
     \<and> ((\<forall>e. get_assessment_tracker_entry s uid (a_id a) \<noteq> Inr e)
          \<and> (\<forall>t\<in>set (trackers_tbl (pending s)). t_latest_commit t \<noteq> ir_latest_commit req) \<longrightarrow>
          (\<exists>s' new. init_assessment_tracker dstr s req uid now1 now2 = (Inr True, s')
             \<and> pending s' = (pending s)\<lparr>trackers_tbl := trackers_tbl (pending s) @ [new]\<rparr>
             \<and> committed s' = pending s'
             \<and> t_user_id new = uid \<and> t_assessment_id new = a_id a
             \<and> t_status new = ''Initiated'' \<and> t_reviewer_id new = None
             \<and> t_latest_commit new = ir_latest_commit req
             \<and> t_log new = [[(''status'', JStr ''Initiated''),
                              (''timestamp'', JStr (dstr now2)),
                              (''commit'', JStr (ir_latest_commit req))]]
             \<and> get_assessment_tracker_entry s' uid (a_id a) = Inr new
             \<and> (\<forall>req' m1 m2. ir_assessment_name req' = ir_assessment_name req \<longrightarrow>
                   init_assessment_tracker dstr s' req' uid m1 m2 =
                     (Inl (ValueError ''Assessment tracker entry already exists.''), s'))))"
proof (intro conjI impI)
  assume "\<exists>e. get_assessment_tracker_entry s uid (a_id a) = Inr e"
  then obtain e where "get_assessment_tracker_entry s uid (a_id a) = Inr e" ..
  with assms show "init_assessment_tracker dstr s req uid now1 now2 =
      (Inl (ValueError ''Assessment tracker entry already exists.''), s)"
    by (rule init_assessment_tracker_exists)
next
  assume h: "(\<forall>e. get_assessment_tracker_entry s uid (a_id a) \<noteq> Inr e)
      \<and> (\<forall>t\<in>set (trackers_tbl (pending s)). t_latest_commit t \<noteq> ir_latest_commit req)"
  with tracker_entry_cases [of s uid "a_id a"]
  have none: "find (\<lambda>t. t_user_id t = uid \<and> t_assessment_id t = a_id a)
                (trackers_tbl (pending s)) = None"
    by auto
  from h have free: "\<forall>t\<in>set (trackers_tbl (pending s)).
      t_latest_commit t \<noteq> ir_latest_commit req" ..
  from init_assessment_tracker_new [OF assms none free, of dstr now1 now2]
  obtain new where
    run: "init_assessment_tracker dstr s req uid now1 now2 =
           (Inr True,
            \<lparr>committed = (pending s)\<lparr>trackers_tbl := trackers_tbl (pending s) @ [new]\<rparr>,
             pending = (pending s)\<lparr>trackers_tbl := trackers_tbl (pending s) @ [new]\<rparr>\<rparr>)"
    and new: "new = \<lparr>t_id = next_id (map t_id (trackers_tbl (pending s))),
                 t_user_id = uid, t_assessment_id = a_id a, t_reviewer_id = None,
                 t_status = ''Initiated'', t_latest_commit = ir_latest_commit req,
                 t_last_updated = now1,
                 t_log = [[(''status'', JStr ''Initiated''),
                           (''timestamp'', JStr (dstr now2)),
                           (''commit'', JStr (ir_latest_commit req))]]\<rparr>"
    by blast
  let ?s' = "\<lparr>committed = (pending s)\<lparr>trackers_tbl := trackers_tbl (pending s) @ [new]\<rparr>,
              pending = (pending s)\<lparr>trackers_tbl := trackers_tbl (pending s) @ [new]\<rparr>\<rparr>"
  have "find (\<lambda>t. t_user_id t = uid \<and> t_assessment_id t = a_id a)
          (trackers_tbl (pending s) @ [new]) = Some new"
    using none by (rule find_append_new) (simp add: new)
  then have found: "get_assessment_tracker_entry ?s' uid (a_id a) = Inr new"
    by (simp add: get_assessment_tracker_entry_def)
  have name: "get_assessment_by_name ?s' n = get_assessment_by_name s n" for n
    by (simp add: get_assessment_by_name_def)
  have again: "init_assessment_tracker dstr ?s' req' uid m1 m2 =
      (Inl (ValueError ''Assessment tracker entry already exists.''), ?s')"
    if "ir_assessment_name req' = ir_assessment_name req" for req' m1 m2
    using that assms found by (intro init_assessment_tracker_exists) (simp_all add: name)
  show "\<exists>s' new. init_assessment_tracker dstr s req uid now1 now2 = (Inr True, s')
             \<and> pending s' = (pending s)\<lparr>trackers_tbl := trackers_tbl (pending s) @ [new]\<rparr>
             \<and> committed s' = pending s'
             \<and> t_user_id new = uid \<and> t_assessment_id new = a_id a
             \<and> t_status new = ''Initiated'' \<and> t_reviewer_id new = None
             \<and> t_latest_commit new = ir_latest_commit req
             \<and> t_log new = [[(''status'', JStr ''Initiated''),
                              (''timestamp'', JStr (dstr now2)),
                              (''commit'', JStr (ir_latest_commit req))]]
             \<and> get_assessment_tracker_entry s' uid (a_id a) = Inr new
             \<and> (\<forall>req' m1 m2. ir_assessment_name req' = ir_assessment_name req \<longrightarrow>
                   init_assessment_tracker dstr s' req' uid m1 m2 =
                     (Inl (ValueError ''Assessment tracker entry already exists.''), s'))"
    by (rule exI [of _ ?s'], rule exI [of _ new]) (use run found again in \<open>simp add: new\<close>)
qed

theorem init_assessment_tracker_once_witness:
  "get_assessment_by_name (ex_session [] []) (ir_assessment_name ex_request) = Inr ex_assessment
   \<and> (\<forall>e. get_assessment_tracker_entry (ex_session [] []) 42 (a_id ex_assessment) \<noteq> Inr e)
   \<and> (\<exists>s'. init_assessment_tracker ex_dstr (ex_session [] []) ex_request 42
              ''2022-06-01 09:00:00'' ''2022-06-01 09:00:01'' = (Inr True, s')
          \<and> map t_status (trackers_tbl (pending s')) = [''Initiated'']
          \<and> init_assessment_tracker ex_dstr s' ex_request 42
              ''2022-06-02 09:00:00'' ''2022-06-02 09:00:01''
            = (Inl (ValueError ''Assessment tracker entry already exists.''), s'))
   \<and> (\<exists>e. get_assessment_tracker_entry (ex_session [ex_entry None ''Initiated'' []] []) 42
              (a_id ex_assessment) = Inr e)
   \<and> init_assessment_tracker ex_dstr (ex_session [ex_entry None ''Initiated'' []] [])
        ex_request 42 ''2022-06-02 09:00:00'' ''2022-06-02 09:00:01''
      = (Inl (ValueError ''Assessment tracker entry already exists.''),
         ex_session [ex_entry None ''Initiated'' []] [])"
proof -
  have a0: "get_assessment_by_name (ex_session [] []) (ir_assessment_name ex_request)
              = Inr ex_assessment"
    by (simp add: lookup_defs ex_defs)
  have n0: "\<forall>e. get_assessment_tracker_entry (ex_session [] []) 42 (a_id ex_assessment) \<noteq> Inr e"
    by (simp add: lookup_defs ex_defs)
  have f0: "\<forall>t\<in>set (trackers_tbl (pending (ex_session [] []))).
              t_latest_commit t \<noteq> ir_latest_commit ex_request"
    by (simp add: ex_defs)
  have a1: "get_assessment_by_name (ex_session [ex_entry None ''Initiated'' []] [])
              (ir_assessment_name ex_request) = Inr ex_assessment"
    by (simp add: lookup_defs ex_defs)
  have e1: "\<exists>e. get_assessment_tracker_entry (ex_session [ex_entry None ''Initiated'' []] []) 42
              (a_id ex_assessment) = Inr e"
    by (simp add: lookup_defs ex_defs)
  from init_assessment_tracker_once [OF a0, of 42 ex_dstr
      "''2022-06-01 09:00:00''" "''2022-06-01 09:00:01''"] n0 f0
  obtain s' new where
    "init_assessment_tracker ex_dstr (ex_session [] []) ex_request 42
        ''2022-06-01 09:00:00'' ''2022-06-01 09:00:01'' = (Inr True, s')"
    "pending s' = (pending (ex_session [] []))
        \<lparr>trackers_tbl := trackers_tbl (pending (ex_session [] [])) @ [new]\<rparr>"
    "t_status new = ''Initiated''"
    "\<forall>req' m1 m2. ir_assessment_name req' = ir_assessment_name ex_request \<longrightarrow>
        init_assessment_tracker ex_dstr s' req' 42 m1 m2 =
          (Inl (ValueError ''Assessment tracker entry already exists.''), s')"
    by blast
  then have first: "\<exists>s'. init_assessment_tracker ex_dstr (ex_session [] []) ex_request 42
              ''2022-06-01 09:00:00'' ''2022-06-01 09:00:01'' = (Inr True, s')
          \<and> map t_status (trackers_tbl (pending s')) = [''Initiated'']
          \<and> init_assessment_tracker ex_dstr s' ex_request 42
              ''2022-06-02 09:00:00'' ''2022-06-02 09:00:01''
            = (Inl (ValueError ''Assessment tracker entry already exists.''), s')"
    by (intro exI [of _ s']) (simp add: ex_defs)
  from init_assessment_tracker_once [OF a1, of 42 ex_dstr
      "''2022-06-02 09:00:00''" "''2022-06-02 09:00:01''"] e1
  have second: "init_assessment_tracker ex_dstr (ex_session [ex_entry None ''Initiated'' []] [])
        ex_request 42 ''2022-06-02 09:00:00'' ''2022-06-02 09:00:01''
      = (Inl (ValueError ''Assessment tracker entry already exists.''),
         ex_session [ex_entry None ''Initiated'' []] [])"
    by blast
  from a0 n0 first e1 second show ?thesis by blast
qed

text \<open>
  The refusal at a concrete input: user 43 has no entry for the assessment, and the
  commit of the request is the one that the entry of user 42 holds.
\<close>

lemma init_assessment_tracker_commit_taken_example:
  "init_assessment_tracker ex_dstr (ex_session [ex_entry None ''Initiated'' []] [])
        ex_request 43 ''2022-06-02 09:00:00'' ''2022-06-02 09:00:01''
      = (Inl IntegrityError, ex_session [ex_entry None ''Initiated'' []] [])"
  by (simp add: init_assessment_tracker_def db_add_new_tracker_def next_id_def Let_def
      lookup_defs ex_defs)

section \<open>Properties of commit updates\<close>

lemma db_add_tracker_InrD:
  assumes "db_add_tracker s obj assign = Inr s'"
    and "list_ex (\<lambda>t. t_id t = t_id obj) (trackers_tbl (pending s))"
  shows "s' = s\<lparr>pending := (pending s)\<lparr>trackers_tbl :=
                  map (\<lambda>t. if t_id t = t_id obj then assign t else t)
                    (trackers_tbl (pending s))\<rparr>\<rparr>"
  using assms by (auto simp: db_add_tracker_def Let_def split: if_splits)

lemma update_assessment_log_missing:
  assumes "find (\<lambda>t. t_id t = entry_id) (trackers_tbl (pending s)) = None"
  shows "update_assessment_log dstr s entry_id latest_commit update_logs now =
      (Inl (ValueError ''Assessment tracker entry unavailable.''), s)"
  using assms
  by (simp add: update_assessment_log_def get_assessment_tracker_entry_by_id_def)

text \<open>
  When the entry is found, the call either is refused by the store, with the session as
  it was, or writes the three attributes on the rows of that id and commits.
\<close>

lemma update_assessment_log_result:
  assumes "find (\<lambda>t. t_id t = entry_id) (trackers_tbl (pending s)) = Some entry"
  shows "update_assessment_log dstr s entry_id latest_commit update_logs now
           = (Inl IntegrityError, s)
     \<or> update_assessment_log dstr s entry_id latest_commit update_logs now =
      (Inr True,
       \<lparr>committed = (pending s)\<lparr>trackers_tbl :=
            map (\<lambda>t. if t_id t = entry_id
                      then t\<lparr>t_last_updated := now, t_latest_commit := latest_commit,
                             t_log := t_log entry @
                               [AList.update ''timestamp'' (JStr (dstr now))
                                 (AList.update ''commit'' (JStr latest_commit) update_logs)]\<rparr>
                      else t)
              (trackers_tbl (pending s))\<rparr>,
        pending = (pending s)\<lparr>trackers_tbl :=
            map (\<lambda>t. if t_id t = entry_id
                      then t\<lparr>t_last_updated := now, t_latest_commit := latest_commit,
                             t_log := t_log entry @
                               [AList.update ''timestamp'' (JStr (dstr now))
                                 (AList.update ''commit'' (JStr latest_commit) update_logs)]\<rparr>
                      else t)
              (trackers_tbl (pending s))\<rparr>\<rparr>)"
proof -
  let ?assign = "\<lambda>t. t\<lparr>t_last_updated := now, t_latest_commit := latest_commit,
                     t_log := t_log entry @
                       [AList.update ''timestamp'' (JStr (dstr now))
                         (AList.update ''commit'' (JStr latest_commit) update_logs)]\<rparr>"
  from assms have i: "t_id entry = entry_id" by (auto dest: find_SomeD)
  from assms have ex: "list_ex (\<lambda>t. t_id t = t_id entry) (trackers_tbl (pending s))"
    using i by (auto dest: list_ex_find)
  from db_add_tracker_cases [of s entry ?assign] show ?thesis
  proof
    assume "db_add_tracker s entry ?assign = Inl IntegrityError"
    with assms show ?thesis
      by (simp add: update_assessment_log_def get_assessment_tracker_entry_by_id_def Let_def)
  next
    assume "\<exists>s'. db_add_tracker s entry ?assign = Inr s'"
    then obtain s' where s': "db_add_tracker s entry ?assign = Inr s'" ..
    from db_add_tracker_InrD [OF s' ex] s' assms i show ?thesis
      by (simp add: update_assessment_log_def get_assessment_tracker_entry_by_id_def Let_def
          db_commit_def)
  qed
qed

lemma update_assessment_log_found:
  assumes "find (\<lambda>t. t_id t = entry_id) (trackers_tbl (pending s)) = Some entry"
    and "\<not> commit_taken (trackers_tbl (pending s)) entry_id latest_commit"
  shows "update_assessment_log dstr s entry_id latest_commit update_logs now =
      (Inr True,
       \<lparr>committed = (pending s)\<lparr>trackers_tbl :=
            map (\<lambda>t. if t_id t = entry_id
                      then t\<lparr>t_last_updated := now, t_latest_commit := latest_commit,
                             t_log := t_log entry @
                               [AList.update ''timestamp'' (JStr (dstr now))
                                 (AList.update ''commit'' (JStr latest_commit) update_logs)]\<rparr>
                      else t)
              (trackers_tbl (pending s))\<rparr>,
        pending = (pending s)\<lparr>trackers_tbl :=
            map (\<lambda>t. if t_id t = entry_id
                      then t\<lparr>t_last_updated := now, t_latest_commit := latest_commit,
                             t_log := t_log entry @
                               [AList.update ''timestamp'' (JStr (dstr now))
                                 (AList.update ''commit'' (JStr latest_commit) update_logs)]\<rparr>
                      else t)
              (trackers_tbl (pending s))\<rparr>\<rparr>)"
proof -
  from assms(1) have i: "t_id entry = entry_id" by (auto dest: find_SomeD)
  from assms(1) have ex: "list_ex (\<lambda>t. t_id t = t_id entry) (trackers_tbl (pending s))"
    using i by (auto dest: list_ex_find)
  have "db_add_tracker s entry
          (\<lambda>t. t\<lparr>t_last_updated := now, t_latest_commit := latest_commit,
                 t_log := t_log entry @
                   [AList.update ''timestamp'' (JStr (dstr now))
                     (AList.update ''commit'' (JStr latest_commit) update_logs)]\<rparr>)
        = Inr (s\<lparr>pending := (pending s)\<lparr>trackers_tbl :=
                  map (\<lambda>t. if t_id t = t_id entry
                      then t\<lparr>t_last_updated := now, t_latest_commit := latest_commit,
                             t_log := t_log entry @
                               [AList.update ''timestamp'' (JStr (dstr now))
                                 (AList.update ''commit'' (JStr latest_commit) update_logs)]\<rparr>
                      else t)
                    (trackers_tbl (pending s))\<rparr>\<rparr>)"
    using ex assms(2) i by (intro db_add_tracker_update) simp_all
  with assms(1) i show ?thesis
    by (simp add: update_assessment_log_def get_assessment_tracker_entry_by_id_def Let_def
        db_commit_def)
qed

text \<open>
  The store's refusal: the entry exists, the commit is new to it, and a row of another
  id holds it. Nothing is updated or appended.
\<close>

lemma update_assessment_log_commit_taken:
  assumes "find (\<lambda>t. t_id t = entry_id) (trackers_tbl (pending s)) = Some entry"
    and "t_latest_commit entry \<noteq> latest_commit"
    and "commit_taken (trackers_tbl (pending s)) entry_id latest_commit"
  shows "update_assessment_log dstr s entry_id latest_commit update_logs now
           = (Inl IntegrityError, s)"
proof -
  from assms(1) have e: "entry \<in> set (trackers_tbl (pending s))" "t_id entry = entry_id"
    by (auto dest: find_SomeD)
  with assms(2,3) have "list_ex (\<lambda>t. t_id t = t_id entry
        \<and> t_latest_commit (t\<lparr>t_last_updated := now, t_latest_commit := latest_commit,
               t_log := t_log entry @
                 [AList.update ''timestamp'' (JStr (dstr now))
                   (AList.update ''commit'' (JStr latest_commit) update_logs)]\<rparr>)
            \<noteq> t_latest_commit t
        \<and> commit_taken (trackers_tbl (pending s)) (t_id entry)
            (t_latest_commit (t\<lparr>t_last_updated := now, t_latest_commit := latest_commit,
               t_log := t_log entry @
                 [AList.update ''timestamp'' (JStr (dstr now))
                   (AList.update ''commit'' (JStr latest_commit) update_logs)]\<rparr>)))
      (trackers_tbl (pending s))"
    by (auto simp: list_ex_iff)
  moreover from e have "list_ex (\<lambda>t. t_id t = t_id entry) (trackers_tbl (pending s))"
    by (auto simp: list_ex_iff)
  ultimately show ?thesis
    using assms(1)
    by (simp add: update_assessment_log_def get_assessment_tracker_entry_by_id_def Let_def
        db_add_tracker_def)
qed

text \<open>
  C9. When \<open>entry_id\<close> is the id of a tracker entry and no entry of another id holds
  the given commit (the column is unique in the store), \<^verbatim>\<open>update_assessment_log\<close>
  succeeds and commits, and the entry found for that id afterwards is the old entry with
  \<^verbatim>\<open>last_updated\<close> set to the time of the call, \<^verbatim>\<open>latest_commit\<close> set to the
  given commit, and one record appended to the log: the caller's dict with \<^verbatim>\<open>commit\<close>
  and \<^verbatim>\<open>timestamp\<close> set to the new values and every other key as the caller gave it.
  Its id, user, assessment, reviewer and status are as before, the table has as many
  rows as before, rows with another id are untouched, and so are the other tables.
\<close>

theorem update_assessment_log_frame:
  assumes "get_assessment_tracker_entry_by_id s entry_id = Inr entry"
    and "\<forall>t\<in>set (trackers_tbl (pending s)).
           t_id t \<noteq> entry_id \<longrightarrow> t_latest_commit t \<noteq> latest_commit"
  shows "\<exists>s' entry' entry_log.
       update_assessment_log dstr s entry_id latest_commit update_logs now = (Inr True, s')
     \<and> get_assessment_tracker_entry_by_id s' entry_id = Inr entry'
     \<and> entry' = entry\<lparr>t_last_updated := now, t_latest_commit := latest_commit,
                       t_log := t_log entry @ [entry_log]\<rparr>
     \<and> (\<forall>k. map_of entry_log k =
            (if k = ''timestamp'' then Some (JStr (dstr now))
             else if k = ''commit'' then Some (JStr latest_commit)
             else map_of update_logs k))
     \<and> t_status entry' = t_status entry \<and> t_reviewer_id entry' = t_reviewer_id entry
     \<and> t_id entry' = t_id entry \<and> t_user_id entry' = t_user_id entry
     \<and> t_assessment_id entry' = t_assessment_id entry
     \<and> pending s' = (pending s)\<lparr>trackers_tbl := trackers_tbl (pending s')\<rparr>
     \<and> length (trackers_tbl (pending s')) = length (trackers_tbl (pending s))
     \<and> (\<forall>j<length (trackers_tbl (pending s)).
           t_id (trackers_tbl (pending s) ! j) \<noteq> entry_id \<longrightarrow>
           trackers_tbl (pending s') ! j = trackers_tbl (pending s) ! j)
     \<and> committed s' = pending s'"
proof -
  let ?lg = "AList.update ''timestamp'' (JStr (dstr now))
               (AList.update ''commit'' (JStr latest_commit) update_logs)"
  let ?assign = "\<lambda>t. t\<lparr>t_last_updated := now, t_latest_commit := latest_commit,
                     t_log := t_log entry @ [?lg]\<rparr>"
  let ?t' = "(pending s)\<lparr>trackers_tbl :=
                 map (\<lambda>t. if t_id t = entry_id then ?assign t else t)
                   (trackers_tbl (pending s))\<rparr>"
  from assms(1) have f: "find (\<lambda>t. t_id t = entry_id) (trackers_tbl (pending s)) = Some entry"
    by (rule tracker_by_id_SomeD)
  then have i: "t_id entry = entry_id" by (auto dest: find_SomeD)
  from assms(2) have free: "\<not> commit_taken (trackers_tbl (pending s)) entry_id latest_commit"
    by (auto simp: commit_taken_iff)
  have run: "update_assessment_log dstr s entry_id latest_commit update_logs now
               = (Inr True, \<lparr>committed = ?t', pending = ?t'\<rparr>)"
    using f free by (rule update_assessment_log_found)
  have "find (\<lambda>t. t_id t = entry_id)
          (map (\<lambda>t. if t_id t = entry_id then ?assign t else t) (trackers_tbl (pending s)))
        = Some (?assign entry)"
    using f i by (rule find_map_assign) simp
  then have after: "get_assessment_tracker_entry_by_id \<lparr>committed = ?t', pending = ?t'\<rparr> entry_id
                      = Inr (?assign entry)"
    by (simp add: get_assessment_tracker_entry_by_id_def)
  have lg: "map_of ?lg k =
       (if k = ''timestamp'' then Some (JStr (dstr now))
        else if k = ''commit'' then Some (JStr latest_commit)
        else map_of update_logs k)" for k
    by (simp add: update_conv')
  show ?thesis
    by (rule exI [of _ "\<lparr>committed = ?t', pending = ?t'\<rparr>"], rule exI [of _ "?assign entry"],
        rule exI [of _ ?lg]) (use run after lg in simp)
qed

theorem update_assessment_log_frame_witness:
  "get_assessment_tracker_entry_by_id
       (ex_session [ex_entry (Some 7) ''Under review'' []] []) 1
     = Inr (ex_entry (Some 7) ''Under review'' [])
   \<and> update_assessment_log ex_dstr (ex_session [ex_entry (Some 7) ''Under review'' []] []) 1
       ''def456'' [(''note'', JStr ''retry''), (''commit'', JStr ''stale'')]
       ''2022-06-02 09:00:00''
     = (Inr True,
        ex_session [\<lparr>t_id = 1, t_user_id = 42, t_assessment_id = 1, t_reviewer_id = Some 7,
             t_status = ''Under review'', t_latest_commit = ''def456'',
             t_last_updated = ''2022-06-02 09:00:00'',
             t_log = [[(''note'', JStr ''retry''), (''commit'', JStr ''def456''),
                       (''timestamp'', JStr ''2022-06-02 09:00:00'')]]\<rparr>] [])"
proof -
  have h: "get_assessment_tracker_entry_by_id
       (ex_session [ex_entry (Some 7) ''Under review'' []] []) 1
     = Inr (ex_entry (Some 7) ''Under review'' [])"
    by (simp add: lookup_defs ex_defs)
  have free: "\<forall>t\<in>set (trackers_tbl (pending
                 (ex_session [ex_entry (Some 7) ''Under review'' []] []))).
           t_id t \<noteq> 1 \<longrightarrow> t_latest_commit t \<noteq> ''def456''"
    by (simp add: ex_defs)
  from update_assessment_log_frame [OF h free, of ex_dstr
      "[(''note'', JStr ''retry''), (''commit'', JStr ''stale'')]" "''2022-06-02 09:00:00''"]
  obtain s' where
    run: "update_assessment_log ex_dstr (ex_session [ex_entry (Some 7) ''Under review'' []] []) 1
       ''def456'' [(''note'', JStr ''retry''), (''commit'', JStr ''stale'')]
       ''2022-06-02 09:00:00'' = (Inr True, s')"
    by blast
  have "snd (update_assessment_log ex_dstr
         (ex_session [ex_entry (Some 7) ''Under review'' []] []) 1
         ''def456'' [(''note'', JStr ''retry''), (''commit'', JStr ''stale'')]
         ''2022-06-02 09:00:00'')
     = ex_session [\<lparr>t_id = 1, t_user_id = 42, t_assessment_id = 1, t_reviewer_id = Some 7,
             t_status = ''Under review'', t_latest_commit = ''def456'',
             t_last_updated = ''2022-06-02 09:00:00'',
             t_log = [[(''note'', JStr ''retry''), (''commit'', JStr ''def456''),
                       (''timestamp'', JStr ''2022-06-02 09:00:00'')]]\<rparr>] []"
    by (simp add: update_assessment_log_def db_add_tracker_def commit_taken_def db_commit_def
        Let_def lookup_defs ex_defs)
  with run h show ?thesis by simp
qed

text \<open>
  The refusal at a concrete input: entry 2 of user 43 holds the commit that the update
  would give to entry 1.
\<close>

lemma update_assessment_log_commit_taken_example:
  "update_assessment_log ex_dstr
      (ex_session [ex_entry (Some 7) ''Under review'' [],
                   \<lparr>t_id = 2, t_user_id = 43, t_assessment_id = 1, t_reviewer_id = None,
                     t_status = ''Initiated'', t_latest_commit = ''def456'',
                     t_last_updated = ''2022-06-01 10:00:00'', t_log = []\<rparr>] [])
      1 ''def456'' [] ''2022-06-02 09:00:00''
    = (Inl IntegrityError,
       ex_session [ex_entry (Some 7) ''Under review'' [],
                   \<lparr>t_id = 2, t_user_id = 43, t_assessment_id = 1, t_reviewer_id = None,
                     t_status = ''Initiated'', t_latest_commit = ''def456'',
                     t_last_updated = ''2022-06-01 10:00:00'', t_log = []\<rparr>] [])"
  by (simp add: update_assessment_log_def db_add_tracker_def commit_taken_def Let_def
      lookup_defs ex_defs)

section \<open>Properties of approval\<close>

text \<open>
  C5. \<^verbatim>\<open>approve_assessment\<close> checks in a fixed order and stops at the first check
  that fails, leaving the session as it was. When the reviewer's user is the trainee it
  fails with "Reviewer cannot be the same as the trainee.", whatever the tables hold.
  Otherwise a missing tracker entry gives "Assessment tracker entry unavailable."; an
  entry without a reviewer gives "No reviewer is assigned to the assessment."; with a
  reviewer but a status other than Under review, "Assessment is not under review."; under
  review with failed commit checks, "Last commit checks failed."; and when all of these
  pass and the recorded reviewer's user has another username than the one given,
  "Reviewer is not the same as the reviewer assigned to the assessment.".
\<close>

theorem approve_assessment_check_order:
  "(r_user_id reviewer = u_id trainee \<longrightarrow>
      approve_assessment verify_check dstr s trainee reviewer reviewer_username assessment
          now1 now2
        = (Inl (ValueError ''Reviewer cannot be the same as the trainee.''), s))
   \<and> (r_user_id reviewer \<noteq> u_id trainee
        \<and> get_assessment_tracker_entry s (u_id trainee) (a_id assessment) = Inl err \<longrightarrow>
      approve_assessment verify_check dstr s trainee reviewer reviewer_username assessment
          now1 now2
        = (Inl (ValueError ''Assessment tracker entry unavailable.''), s))
   \<and> (r_user_id reviewer \<noteq> u_id trainee
        \<and> get_assessment_tracker_entry s (u_id trainee) (a_id assessment) = Inr e
        \<and> t_reviewer_id e = None \<longrightarrow>
      approve_assessment verify_check dstr s trainee reviewer reviewer_username assessment
          now1 now2
        = (Inl (ValueError ''No reviewer is assigned to the assessment.''), s))
   \<and> (r_user_id reviewer \<noteq> u_id trainee
        \<and> get_assessment_tracker_entry s (u_id trainee) (a_id assessment) = Inr e
        \<and> t_reviewer_id e \<noteq> None \<and> t_status e \<noteq> ''Under review'' \<longrightarrow>
      approve_assessment verify_check dstr s trainee reviewer reviewer_username assessment
          now1 now2
        = (Inl (ValueError ''Assessment is not under review.''), s))
   \<and> (r_user_id reviewer \<noteq> u_id trainee
        \<and> get_assessment_tracker_entry s (u_id trainee) (a_id assessment) = Inr e
        \<and> t_reviewer_id e \<noteq> None \<and> t_status e = ''Under review'' \<and> \<not> verify_check e \<longrightarrow>
      approve_assessment verify_check dstr s trainee reviewer reviewer_username assessment
          now1 now2
        = (Inl (ValueError ''Last commit checks failed.''), s))
   \<and> (r_user_id reviewer \<noteq> u_id trainee
        \<and> get_assessment_tracker_entry s (u_id trainee) (a_id assessment) = Inr e
        \<and> t_reviewer_id e = Some rid \<and> t_status e = ''Under review'' \<and> verify_check e
        \<and> get_reviewer_by_id s rid = Inr reviewer_real
        \<and> get_user_by_id s (r_user_id reviewer_real) = Inr reviewer_real_user
        \<and> u_username reviewer_real_user \<noteq> reviewer_username \<longrightarrow>
      approve_assessment verify_check dstr s trainee reviewer reviewer_username assessment
          now1 now2
        = (Inl (ValueError
             ''Reviewer is not the same as the reviewer assigned to the assessment.''), s))"
proof -
  have nf: "err = ValueError ''Assessment tracker entry unavailable.''"
    if "get_assessment_tracker_entry s (u_id trainee) (a_id assessment) = Inl err"
    using that tracker_entry_cases [of s "u_id trainee" "a_id assessment"] by auto
  show ?thesis
    using nf by (auto simp: approve_assessment_def)
qed

theorem approve_assessment_check_order_witness:
  "approve_assessment (\<lambda>t. True) ex_dstr (ex_session [ex_entry (Some 7) ''Approved'' []] [])
      ex_trainee \<lparr>r_id = 9, r_user_id = 42\<rparr> ''alice'' ex_assessment
      ''2022-06-04 09:00:00'' ''2022-06-04 09:00:01''
    = (Inl (ValueError ''Reviewer cannot be the same as the trainee.''),
       ex_session [ex_entry (Some 7) ''Approved'' []] [])
   \<and> approve_assessment (\<lambda>t. True) ex_dstr (ex_session [] [])
      ex_trainee \<lparr>r_id = 7, r_user_id = 43\<rparr> ''bob'' ex_assessment
      ''2022-06-04 09:00:00'' ''2022-06-04 09:00:01''
    = (Inl (ValueError ''Assessment tracker entry unavailable.''), ex_session [] [])
   \<and> approve_assessment (\<lambda>t. True) ex_dstr (ex_session [ex_entry None ''Initiated'' []] [])
      ex_trainee \<lparr>r_id = 7, r_user_id = 43\<rparr> ''bob'' ex_assessment
      ''2022-06-04 09:00:00'' ''2022-06-04 09:00:01''
    = (Inl (ValueError ''No reviewer is assigned to the assessment.''),
       ex_session [ex_entry None ''Initiated'' []] [])
   \<and> approve_assessment (\<lambda>t. True) ex_dstr (ex_session [ex_entry (Some 7) ''Approved'' []] [])
      ex_trainee \<lparr>r_id = 7, r_user_id = 43\<rparr> ''bob'' ex_assessment
      ''2022-06-04 09:00:00'' ''2022-06-04 09:00:01''
    = (Inl (ValueError ''Assessment is not under review.''),
       ex_session [ex_entry (Some 7) ''Approved'' []] [])
   \<and> approve_assessment (\<lambda>t. False) ex_dstr
      (ex_session [ex_entry (Some 7) ''Under review'' []] [])
      ex_trainee \<lparr>r_id = 7, r_user_id = 43\<rparr> ''bob'' ex_assessment
      ''2022-06-04 09:00:00'' ''2022-06-04 09:00:01''
    = (Inl (ValueError ''Last commit checks failed.''),
       ex_session [ex_entry (Some 7) ''Under review'' []] [])
   \<and> approve_assessment (\<lambda>t. True) ex_dstr
      (ex_session [ex_entry (Some 7) ''Under review'' []] [])
      ex_trainee \<lparr>r_id = 8, r_user_id = 44\<rparr> ''carol'' ex_assessment
      ''2022-06-04 09:00:00'' ''2022-06-04 09:00:01''
    = (Inl (ValueError
         ''Reviewer is not the same as the reviewer assigned to the assessment.''),
       ex_session [ex_entry (Some 7) ''Under review'' []] [])"
proof -
  have c1: "r_user_id \<lparr>r_id = 9, r_user_id = 42\<rparr> = u_id ex_trainee"
    by (simp add: ex_defs)
  have c2: "r_user_id \<lparr>r_id = 7, r_user_id = 43\<rparr> \<noteq> u_id ex_trainee
     \<and> get_assessment_tracker_entry (ex_session [] []) (u_id ex_trainee) (a_id ex_assessment)
        = Inl (ValueError ''Assessment tracker entry unavailable.'')"
    by (simp add: lookup_defs ex_defs)
  have c3: "r_user_id \<lparr>r_id = 7, r_user_id = 43\<rparr> \<noteq> u_id ex_trainee
     \<and> get_assessment_tracker_entry (ex_session [ex_entry None ''Initiated'' []] [])
          (u_id ex_trainee) (a_id ex_assessment) = Inr (ex_entry None ''Initiated'' [])
     \<and> t_reviewer_id (ex_entry None ''Initiated'' []) = None"
    by (simp add: lookup_defs ex_defs)
  have c4: "r_user_id \<lparr>r_id = 7, r_user_id = 43\<rparr> \<noteq> u_id ex_trainee
     \<and> get_assessment_tracker_entry (ex_session [ex_entry (Some 7) ''Approved'' []] [])
          (u_id ex_trainee) (a_id ex_assessment) = Inr (ex_entry (Some 7) ''Approved'' [])
     \<and> t_reviewer_id (ex_entry (Some 7) ''Approved'' []) \<noteq> None
     \<and> t_status (ex_entry (Some 7) ''Approved'' []) \<noteq> ''Under review''"
    by (simp add: lookup_defs ex_defs)
  have c5: "r_user_id \<lparr>r_id = 7, r_user_id = 43\<rparr> \<noteq> u_id ex_trainee
     \<and> get_assessment_tracker_entry (ex_session [ex_entry (Some 7) ''Under review'' []] [])
          (u_id ex_trainee) (a_id ex_assessment) = Inr (ex_entry (Some 7) ''Under review'' [])
     \<and> t_reviewer_id (ex_entry (Some 7) ''Under review'' []) \<noteq> None
     \<and> t_status (ex_entry (Some 7) ''Under review'' []) = ''Under review''
     \<and> \<not> (\<lambda>t. False) (ex_entry (Some 7) ''Under review'' [])"
    by (simp add: lookup_defs ex_defs)
  have c6: "r_user_id \<lparr>r_id = 8, r_user_id = 44\<rparr> \<noteq> u_id ex_trainee
     \<and> get_assessment_tracker_entry (ex_session [ex_entry (Some 7) ''Under review'' []] [])
          (u_id ex_trainee) (a_id ex_assessment) = Inr (ex_entry (Some 7) ''Under review'' [])
     \<and> t_reviewer_id (ex_entry (Some 7) ''Under review'' []) = Some 7
     \<and> t_status (ex_entry (Some 7) ''Under review'' []) = ''Under review''
     \<and> (\<lambda>t. True) (ex_entry (Some 7) ''Under review'' [])
     \<and> get_reviewer_by_id (ex_session [ex_entry (Some 7) ''Under review'' []] []) 7
          = Inr \<lparr>r_id = 7, r_user_id = 43\<rparr>
     \<and> get_user_by_id (ex_session [ex_entry (Some 7) ''Under review'' []] [])
          (r_user_id \<lparr>r_id = 7, r_user_id = 43\<rparr>) = Inr \<lparr>u_id = 43, u_username = ''bob''\<rparr>
     \<and> u_username \<lparr>u_id = 43, u_username = ''bob''\<rparr> \<noteq> ''carol''"
    by (simp add: lookup_defs ex_defs)
  have r1:
    "approve_assessment (\<lambda>t. True) ex_dstr (ex_session [ex_entry (Some 7) ''Approved'' []] [])
      ex_trainee \<lparr>r_id = 9, r_user_id = 42\<rparr> ''alice'' ex_assessment
      ''2022-06-04 09:00:00'' ''2022-06-04 09:00:01''
    = (Inl (ValueError ''Reviewer cannot be the same as the trainee.''),
       ex_session [ex_entry (Some 7) ''Approved'' []] [])"
    by (rule approve_assessment_check_order [THEN conjunct1, THEN mp]) (rule c1)
  have r2:
    "approve_assessment (\<lambda>t. True) ex_dstr (ex_session [] [])
      ex_trainee \<lparr>r_id = 7, r_user_id = 43\<rparr> ''bob'' ex_assessment
      ''2022-06-04 09:00:00'' ''2022-06-04 09:00:01''
    = (Inl (ValueError ''Assessment tracker entry unavailable.''), ex_session [] [])"
    by (rule approve_assessment_check_order [THEN conjunct2, THEN conjunct1, THEN mp]) (rule c2)
  have r3:
    "approve_assessment (\<lambda>t. True) ex_dstr (ex_session [ex_entry None ''Initiated'' []] [])
      ex_trainee \<lparr>r_id = 7, r_user_id = 43\<rparr> ''bob'' ex_assessment
      ''2022-06-04 09:00:00'' ''2022-06-04 09:00:01''
    = (Inl (ValueError ''No reviewer is assigned to the assessment.''),
       ex_session [ex_entry None ''Initiated'' []] [])"
    by (rule approve_assessment_check_order [THEN conjunct2, THEN conjunct2, THEN conjunct1, THEN mp]) (rule c3)
  have r4:
    "approve_assessment (\<lambda>t. True) ex_dstr (ex_session [ex_entry (Some 7) ''Approved'' []] [])
      ex_trainee \<lparr>r_id = 7, r_user_id = 43\<rparr> ''bob'' ex_assessment
      ''2022-06-04 09:00:00'' ''2022-06-04 09:00:01''
    = (Inl (ValueError ''Assessment is not under review.''),
       ex_session [ex_entry (Some 7) ''Approved'' []] [])"
    by (rule approve_assessment_check_order [THEN conjunct2, THEN conjunct2, THEN conjunct2, THEN conjunct1, THEN mp]) (rule c4)
  have r5:
    "approve_assessment (\<lambda>t. False) ex_dstr
      (ex_session [ex_entry (Some 7) ''Under review'' []] [])
      ex_trainee \<lparr>r_id = 7, r_user_id = 43\<rparr> ''bob'' ex_assessment
      ''2022-06-04 09:00:00'' ''2022-06-04 09:00:01''
    = (Inl (ValueError ''Last commit checks failed.''),
       ex_session [ex_entry (Some 7) ''Under review'' []] [])"
    by (rule approve_assessment_check_order [THEN conjunct2, THEN conjunct2, THEN conjunct2, THEN conjunct2, THEN conjunct1,
        THEN mp]) (rule c5)
  have r6:
    "approve_assessment (\<lambda>t. True) ex_dstr
      (ex_session [ex_entry (Some 7) ''Under review'' []] [])
      ex_trainee \<lparr>r_id = 8, r_user_id = 44\<rparr> ''carol'' ex_assessment
      ''2022-06-04 09:00:00'' ''2022-06-04 09:00:01''
    = (Inl (ValueError
         ''Reviewer is not the same as the reviewer assigned to the assessment.''),
       ex_session [ex_entry (Some 7) ''Under review'' []] [])"
    by (rule approve_assessment_check_order [THEN conjunct2, THEN conjunct2, THEN conjunct2, THEN conjunct2, THEN conjunct2,
        THEN mp]) (rule c6)
  from r1 r2 r3 r4 r5 r6 show ?thesis by blast
qed

text \<open>
  C6. When every earlier check of \<^verbatim>\<open>approve_assessment\<close> passes and the username
  given differs from the username of the reviewer recorded on the entry, the call fails
  with "Reviewer is not the same as the reviewer assigned to the assessment." and returns
  the session it was given: the entry of the pair is the same row as before, its status
  still Under review, its log, reviewer, commit and time untouched.
\<close>

theorem approve_assessment_reviewer_mismatch:
  assumes "r_user_id reviewer \<noteq> u_id trainee"
    and "get_assessment_tracker_entry s (u_id trainee) (a_id assessment) = Inr e"
    and "t_reviewer_id e = Some rid"
    and "t_status e = ''Under review''"
    and "verify_check e"
    and "get_reviewer_by_id s rid = Inr reviewer_real"
    and "get_user_by_id s (r_user_id reviewer_real) = Inr reviewer_real_user"
    and "u_username reviewer_real_user \<noteq> reviewer_username"
  shows "\<exists>s'. approve_assessment verify_check dstr s trainee reviewer reviewer_username
                  assessment now1 now2
            = (Inl (ValueError
                 ''Reviewer is not the same as the reviewer assigned to the assessment.''), s')
          \<and> s' = s
          \<and> get_assessment_tracker_entry s' (u_id trainee) (a_id assessment) = Inr e
          \<and> t_status e = ''Under review''"
  using assms by (simp add: approve_assessment_def)

theorem approve_assessment_reviewer_mismatch_witness:
  "r_user_id \<lparr>r_id = 8, r_user_id = 44\<rparr> \<noteq> u_id ex_trainee
   \<and> get_assessment_tracker_entry (ex_session [ex_entry (Some 7) ''Under review'' []] [])
        (u_id ex_trainee) (a_id ex_assessment) = Inr (ex_entry (Some 7) ''Under review'' [])
   \<and> t_reviewer_id (ex_entry (Some 7) ''Under review'' []) = Some 7
   \<and> t_status (ex_entry (Some 7) ''Under review'' []) = ''Under review''
   \<and> get_reviewer_by_id (ex_session [ex_entry (Some 7) ''Under review'' []] []) 7
        = Inr \<lparr>r_id = 7, r_user_id = 43\<rparr>
   \<and> get_user_by_id (ex_session [ex_entry (Some 7) ''Under review'' []] [])
        (r_user_id \<lparr>r_id = 7, r_user_id = 43\<rparr>) = Inr \<lparr>u_id = 43, u_username = ''bob''\<rparr>
   \<and> u_username \<lparr>u_id = 43, u_username = ''bob''\<rparr> \<noteq> ''carol''
   \<and> approve_assessment (\<lambda>t. True) ex_dstr
        (ex_session [ex_entry (Some 7) ''Under review'' []] [])
        ex_trainee \<lparr>r_id = 8, r_user_id = 44\<rparr> ''carol'' ex_assessment
        ''2022-06-04 09:00:00'' ''2022-06-04 09:00:01''
      = (Inl (ValueError
           ''Reviewer is not the same as the reviewer assigned to the assessment.''),
         ex_session [ex_entry (Some 7) ''Under review'' []] [])"
proof -
  have h1: "r_user_id \<lparr>r_id = 8, r_user_id = 44\<rparr> \<noteq> u_id ex_trainee"
    by (simp add: ex_defs)
  have h2: "get_assessment_tracker_entry (ex_session [ex_entry (Some 7) ''Under review'' []] [])
        (u_id ex_trainee) (a_id ex_assessment) = Inr (ex_entry (Some 7) ''Under review'' [])"
    by (simp add: lookup_defs ex_defs)
  have h3: "t_reviewer_id (ex_entry (Some 7) ''Under review'' []) = Some 7"
    by (simp add: ex_defs)
  have h4: "t_status (ex_entry (Some 7) ''Under review'' []) = ''Under review''"
    by (simp add: ex_defs)
  have h5: "(\<lambda>t. True) (ex_entry (Some 7) ''Under review'' [])"
    by simp
  have h6: "get_reviewer_by_id (ex_session [ex_entry (Some 7) ''Under review'' []] []) 7
        = Inr \<lparr>r_id = 7, r_user_id = 43\<rparr>"
    by (simp add: lookup_defs ex_defs)
  have h7: "get_user_by_id (ex_session [ex_entry (Some 7) ''Under review'' []] [])
        (r_user_id \<lparr>r_id = 7, r_user_id = 43\<rparr>) = Inr \<lparr>u_id = 43, u_username = ''bob''\<rparr>"
    by (simp add: lookup_defs ex_defs)
  have h8: "u_username \<lparr>u_id = 43, u_username = ''bob''\<rparr> \<noteq> ''carol''"
    by simp
  from approve_assessment_reviewer_mismatch [of _ _ _ _ _ _ "\<lambda>t. True", OF h1 h2 h3 h4 h5 h6 h7 h8,
      of ex_dstr "''2022-06-04 09:00:00''" "''2022-06-04 09:00:01''"]
  have "approve_assessment (\<lambda>t. True) ex_dstr
        (ex_session [ex_entry (Some 7) ''Under review'' []] [])
        ex_trainee \<lparr>r_id = 8, r_user_id = 44\<rparr> ''carol'' ex_assessment
        ''2022-06-04 09:00:00'' ''2022-06-04 09:00:01''
      = (Inl (ValueError
           ''Reviewer is not the same as the reviewer assigned to the assessment.''),
         ex_session [ex_entry (Some 7) ''Under review'' []] [])"
    by auto
  with h1 h2 h3 h4 h6 h7 h8 show ?thesis by blast
qed

text \<open>
  The write of \<^verbatim>\<open>approve_assessment\<close> assigns status, time and log and leaves
  \<^verbatim>\<open>latest_commit\<close> alone, so the store has nothing to refuse.
\<close>

lemma approve_assessment_success:
  assumes "approve_assessment verify_check dstr s trainee reviewer reviewer_username
             assessment now1 now2 = (Inr ok, s')"
  shows "\<exists>e. get_assessment_tracker_entry s (u_id trainee) (a_id assessment) = Inr e
     \<and> t_status e = ''Under review''
     \<and> s' = \<lparr>committed = (pending s)\<lparr>trackers_tbl :=
                 map (\<lambda>t. if t_id t = t_id e
                   then t\<lparr>t_status := ''Approved'', t_last_updated := now1,
                          t_log := t_log e @ [[(''timestamp'', JStr (dstr now2)),
                                               (''status'', JStr ''Approved''),
                                               (''commit'', JStr (t_latest_commit e)),
                                               (''Reviewer'', JInt (r_id reviewer))]]\<rparr>
                   else t) (trackers_tbl (pending s))\<rparr>,
              pending = (pending s)\<lparr>trackers_tbl :=
                 map (\<lambda>t. if t_id t = t_id e
                   then t\<lparr>t_status := ''Approved'', t_last_updated := now1,
                          t_log := t_log e @ [[(''timestamp'', JStr (dstr now2)),
                                               (''status'', JStr ''Approved''),
                                               (''commit'', JStr (t_latest_commit e)),
                                               (''Reviewer'', JInt (r_id reviewer))]]\<rparr>
                   else t) (trackers_tbl (pending s))\<rparr>\<rparr>"
proof -
  from assms obtain e s1 where
    e: "get_assessment_tracker_entry s (u_id trainee) (a_id assessment) = Inr e"
    and st: "t_status e = ''Under review''"
    and w: "db_add_tracker s e
              (\<lambda>t. t\<lparr>t_status := ''Approved'', t_last_updated := now1,
                     t_log := t_log e @ [[(''timestamp'', JStr (dstr now2)),
                                          (''status'', JStr ''Approved''),
                                          (''commit'', JStr (t_latest_commit e)),
                                          (''Reviewer'', JInt (r_id reviewer))]]\<rparr>) = Inr s1"
    and s': "s' = db_commit s1"
    by (auto simp: approve_assessment_def Let_def split: if_splits sum.splits option.splits)
  from e have "e \<in> set (trackers_tbl (pending s))"
    using tracker_entry_cases [of s "u_id trainee" "a_id assessment"]
    by (auto dest: find_SomeD)
  then have "list_ex (\<lambda>t. t_id t = t_id e) (trackers_tbl (pending s))"
    by (auto simp: list_ex_iff)
  from db_add_tracker_InrD [OF w this] e st s' show ?thesis
    by (simp add: db_commit_def)
qed

lemma approve_assessment_failure:
  assumes "approve_assessment verify_check dstr s trainee reviewer reviewer_username
             assessment now1 now2 = (Inl err, s')"
  shows "s' = s"
  using assms
  by (auto simp: approve_assessment_def Let_def split: if_splits sum.splits option.splits)

text \<open>
  C10. After a successful \<^verbatim>\<open>approve_assessment\<close> the entry of the pair is the old
  entry with one record appended to its log, and that record's \<^verbatim>\<open>Reviewer\<close> is the id
  of the reviewer passed to the call. That id need not be the \<^verbatim>\<open>reviewer_id\<close>
  recorded on the entry: the last check compares the recorded reviewer's username with
  the username given and nothing else, so there is a successful call whose reviewer
  argument has another id than the entry records.
\<close>

theorem approve_assessment_log_reviewer:
  "(approve_assessment verify_check dstr s trainee reviewer reviewer_username assessment
       now1 now2 = (Inr True, s') \<longrightarrow>
      (\<exists>e e' entry_log.
           get_assessment_tracker_entry s (u_id trainee) (a_id assessment) = Inr e
         \<and> get_assessment_tracker_entry s' (u_id trainee) (a_id assessment) = Inr e'
         \<and> t_log e' = t_log e @ [entry_log]
         \<and> map_of entry_log ''Reviewer'' = Some (JInt (r_id reviewer))
         \<and> map_of entry_log ''status'' = Some (JStr ''Approved'')))
   \<and> (\<exists>(s0 :: string session) verify_check0 dstr0 trainee0 reviewer0 reviewer_username0
          assessment0 n1 n2 s1 e0.
         approve_assessment verify_check0 dstr0 s0 trainee0 reviewer0 reviewer_username0
           assessment0 n1 n2 = (Inr True, s1)
         \<and> get_assessment_tracker_entry s0 (u_id trainee0) (a_id assessment0) = Inr e0
         \<and> t_reviewer_id e0 \<noteq> Some (r_id reviewer0))"
proof (intro conjI impI)
  assume "approve_assessment verify_check dstr s trainee reviewer reviewer_username assessment
       now1 now2 = (Inr True, s')"
  then obtain e where e: "get_assessment_tracker_entry s (u_id trainee) (a_id assessment) = Inr e"
    and rows: "trackers_tbl (pending s') =
      map (\<lambda>t. if t_id t = t_id e
             then t\<lparr>t_status := ''Approved'', t_last_updated := now1,
                    t_log := t_log e @ [[(''timestamp'', JStr (dstr now2)),
                                         (''status'', JStr ''Approved''),
                                         (''commit'', JStr (t_latest_commit e)),
                                         (''Reviewer'', JInt (r_id reviewer))]]\<rparr>
             else t) (trackers_tbl (pending s))"
    by (auto dest!: approve_assessment_success)
  let ?lg = "[(''timestamp'', JStr (dstr now2)), (''status'', JStr ''Approved''),
              (''commit'', JStr (t_latest_commit e)), (''Reviewer'', JInt (r_id reviewer))]"
  let ?assign = "\<lambda>t. t\<lparr>t_status := ''Approved'', t_last_updated := now1,
                     t_log := t_log e @ [?lg]\<rparr>"
  from e have f: "find (\<lambda>t. t_user_id t = u_id trainee \<and> t_assessment_id t = a_id assessment)
                    (trackers_tbl (pending s)) = Some e"
    using tracker_entry_cases [of s "u_id trainee" "a_id assessment"] by auto
  have "find (\<lambda>t. t_user_id t = u_id trainee \<and> t_assessment_id t = a_id assessment)
          (map (\<lambda>t. if t_id t = t_id e then ?assign t else t) (trackers_tbl (pending s)))
        = Some (?assign e)"
    using f by (rule find_map_assign) simp_all
  then have "get_assessment_tracker_entry s' (u_id trainee) (a_id assessment) = Inr (?assign e)"
    by (simp add: get_assessment_tracker_entry_def rows)
  with e show "\<exists>e e' entry_log.
       get_assessment_tracker_entry s (u_id trainee) (a_id assessment) = Inr e
         \<and> get_assessment_tracker_entry s' (u_id trainee) (a_id assessment) = Inr e'
         \<and> t_log e' = t_log e @ [entry_log]
         \<and> map_of entry_log ''Reviewer'' = Some (JInt (r_id reviewer))
         \<and> map_of entry_log ''status'' = Some (JStr ''Approved'')"
    by (intro exI [of _ e] exI [of _ "?assign e"] exI [of _ ?lg]) simp
next
  have run: "approve_assessment (\<lambda>t. True) ex_dstr
          (ex_session [ex_entry (Some 7) ''Under review'' []] [])
          ex_trainee \<lparr>r_id = 8, r_user_id = 44\<rparr> ''bob'' ex_assessment
          ''2022-06-04 09:00:00'' ''2022-06-04 09:00:01''
        = (Inr True, snd (approve_assessment (\<lambda>t. True) ex_dstr
          (ex_session [ex_entry (Some 7) ''Under review'' []] [])
          ex_trainee \<lparr>r_id = 8, r_user_id = 44\<rparr> ''bob'' ex_assessment
          ''2022-06-04 09:00:00'' ''2022-06-04 09:00:01''))"
    by (simp add: approve_assessment_def db_add_tracker_def commit_taken_def Let_def
        lookup_defs ex_defs)
  have ent: "get_assessment_tracker_entry (ex_session [ex_entry (Some 7) ''Under review'' []] [])
          (u_id ex_trainee) (a_id ex_assessment) = Inr (ex_entry (Some 7) ''Under review'' [])"
    by (simp add: lookup_defs ex_defs)
  have ne: "t_reviewer_id (ex_entry (Some 7) ''Under review'' [])
            \<noteq> Some (r_id \<lparr>r_id = 8, r_user_id = 44\<rparr>)"
    by (simp add: ex_defs)
  from run ent ne show "\<exists>(s0 :: string session) verify_check0 dstr0 trainee0 reviewer0
          reviewer_username0 assessment0 n1 n2 s1 e0.
         approve_assessment verify_check0 dstr0 s0 trainee0 reviewer0 reviewer_username0
           assessment0 n1 n2 = (Inr True, s1)
         \<and> get_assessment_tracker_entry s0 (u_id trainee0) (a_id assessment0) = Inr e0
         \<and> t_reviewer_id e0 \<noteq> Some (r_id reviewer0)"
    by blast
qed

theorem approve_assessment_log_reviewer_witness:
  "approve_assessment (\<lambda>t. True) ex_dstr
       (ex_session [ex_entry (Some 7) ''Under review'' []] [])
       ex_trainee \<lparr>r_id = 8, r_user_id = 44\<rparr> ''bob'' ex_assessment
       ''2022-06-04 09:00:00'' ''2022-06-04 09:00:01''
     = (Inr True,
        ex_session [\<lparr>t_id = 1, t_user_id = 42, t_assessment_id = 1, t_reviewer_id = Some 7,
             t_status = ''Approved'', t_latest_commit = ''abc123'',
             t_last_updated = ''2022-06-04 09:00:00'',
             t_log = [[(''timestamp'', JStr ''2022-06-04 09:00:01''),
                       (''status'', JStr ''Approved''), (''commit'', JStr ''abc123''),
                       (''Reviewer'', JInt 8)]]\<rparr>] [])
   \<and> (\<exists>e entry_log. \<exists>e' :: string assessment_tracker.
         get_assessment_tracker_entry (ex_session [ex_entry (Some 7) ''Under review'' []] [])
           (u_id ex_trainee) (a_id ex_assessment) = Inr e
       \<and> t_reviewer_id e = Some 7
       \<and> t_log e' = t_log e @ [entry_log]
       \<and> map_of entry_log ''Reviewer'' = Some (JInt 8))"
proof -
  have run: "approve_assessment (\<lambda>t. True) ex_dstr
       (ex_session [ex_entry (Some 7) ''Under review'' []] [])
       ex_trainee \<lparr>r_id = 8, r_user_id = 44\<rparr> ''bob'' ex_assessment
       ''2022-06-04 09:00:00'' ''2022-06-04 09:00:01''
     = (Inr True,
        ex_session [\<lparr>t_id = 1, t_user_id = 42, t_assessment_id = 1, t_reviewer_id = Some 7,
             t_status = ''Approved'', t_latest_commit = ''abc123'',
             t_last_updated = ''2022-06-04 09:00:00'',
             t_log = [[(''timestamp'', JStr ''2022-06-04 09:00:01''),
                       (''status'', JStr ''Approved''), (''commit'', JStr ''abc123''),
                       (''Reviewer'', JInt 8)]]\<rparr>] [])"
    by (simp add: approve_assessment_def db_add_tracker_def commit_taken_def db_commit_def
        Let_def lookup_defs ex_defs)
  have ent: "get_assessment_tracker_entry (ex_session [ex_entry (Some 7) ''Under review'' []] [])
          (u_id ex_trainee) (a_id ex_assessment) = Inr (ex_entry (Some 7) ''Under review'' [])"
    by (simp add: lookup_defs ex_defs)
  from approve_assessment_log_reviewer [THEN conjunct1, THEN mp, OF run]
  obtain e entry_log and e' :: "string assessment_tracker" where
    e: "get_assessment_tracker_entry (ex_session [ex_entry (Some 7) ''Under review'' []] [])
           (u_id ex_trainee) (a_id ex_assessment) = Inr e"
    and lg: "t_log e' = t_log e @ [entry_log]"
    and rv: "map_of entry_log ''Reviewer'' = Some (JInt (r_id \<lparr>r_id = 8, r_user_id = 44\<rparr>))"
    by blast
  from e ent have "e = ex_entry (Some 7) ''Under review'' []" by simp
  then have rid: "t_reviewer_id e = Some 7" by (simp add: ex_entry_def)
  from rv have rv': "map_of entry_log ''Reviewer'' = Some (JInt 8)" by simp
  from e rid lg rv' have "\<exists>e entry_log. \<exists>e' :: string assessment_tracker.
         get_assessment_tracker_entry (ex_session [ex_entry (Some 7) ''Under review'' []] [])
           (u_id ex_trainee) (a_id ex_assessment) = Inr e
       \<and> t_reviewer_id e = Some 7
       \<and> t_log e' = t_log e @ [entry_log]
       \<and> map_of entry_log ''Reviewer'' = Some (JInt 8)"
    by blast
  with run show ?thesis by blast
qed

section \<open>Status transitions\<close>

lemma db_commit_pending:
  "db_commit (s\<lparr>pending := tbls\<rparr>) = \<lparr>committed = tbls, pending = tbls\<rparr>"
  by (simp add: db_commit_def)

lemma update_assessment_log_status:
  assumes "distinct (map t_id (trackers_tbl (pending s)))"
  shows "map t_status (trackers_tbl (pending (snd
            (update_assessment_log dstr s entry_id latest_commit update_logs now))))
         = map t_status (trackers_tbl (pending s))"
proof (cases "find (\<lambda>t. t_id t = entry_id) (trackers_tbl (pending s))")
  case None
  then show ?thesis by (simp add: update_assessment_log_missing)
next
  case (Some entry)
  from update_assessment_log_result [OF Some, of dstr latest_commit update_logs now]
  show ?thesis
    by (auto simp: comp_def)
qed

lemma approve_assessment_rows:
  assumes "approve_assessment verify_check dstr s trainee reviewer reviewer_username
             assessment now1 now2 = (Inr ok, s')"
  shows "\<exists>e. get_assessment_tracker_entry s (u_id trainee) (a_id assessment) = Inr e
     \<and> t_status e = ''Under review''
     \<and> trackers_tbl (pending s') =
          map (\<lambda>t. if t_id t = t_id e
               then t\<lparr>t_status := ''Approved'', t_last_updated := now1,
                      t_log := t_log e @ [[(''timestamp'', JStr (dstr now2)),
                                           (''status'', JStr ''Approved''),
                                           (''commit'', JStr (t_latest_commit e)),
                                           (''Reviewer'', JInt (r_id reviewer))]]\<rparr>
               else t) (trackers_tbl (pending s))"
proof -
  from approve_assessment_success [OF assms] obtain e where
    e: "get_assessment_tracker_entry s (u_id trainee) (a_id assessment) = Inr e"
    and st: "t_status e = ''Under review''"
    and s': "s' = \<lparr>committed = (pending s)\<lparr>trackers_tbl :=
                 map (\<lambda>t. if t_id t = t_id e
                   then t\<lparr>t_status := ''Approved'', t_last_updated := now1,
                          t_log := t_log e @ [[(''timestamp'', JStr (dstr now2)),
                                               (''status'', JStr ''Approved''),
                                               (''commit'', JStr (t_latest_commit e)),
                                               (''Reviewer'', JInt (r_id reviewer))]]\<rparr>
                   else t) (trackers_tbl (pending s))\<rparr>,
              pending = (pending s)\<lparr>trackers_tbl :=
                 map (\<lambda>t. if t_id t = t_id e
                   then t\<lparr>t_status := ''Approved'', t_last_updated := now1,
                          t_log := t_log e @ [[(''timestamp'', JStr (dstr now2)),
                                               (''status'', JStr ''Approved''),
                                               (''commit'', JStr (t_latest_commit e)),
                                               (''Reviewer'', JInt (r_id reviewer))]]\<rparr>
                   else t) (trackers_tbl (pending s))\<rparr>\<rparr>"
    by (elim exE conjE)
  from s' have "trackers_tbl (pending s') =
          map (\<lambda>t. if t_id t = t_id e
               then t\<lparr>t_status := ''Approved'', t_last_updated := now1,
                      t_log := t_log e @ [[(''timestamp'', JStr (dstr now2)),
                                           (''status'', JStr ''Approved''),
                                           (''commit'', JStr (t_latest_commit e)),
                                           (''Reviewer'', JInt (r_id reviewer))]]\<rparr>
               else t) (trackers_tbl (pending s))"
    by simp
  with e st show ?thesis by (intro exI [of _ e]) simp
qed

lemma approve_assessment_status:
  assumes "distinct (map t_id (trackers_tbl (pending s)))"
  shows "list_all2
      (\<lambda>t t'. t_status t' = t_status t
             \<or> t_status t = ''Under review'' \<and> t_status t' = ''Approved'')
      (trackers_tbl (pending s))
      (trackers_tbl (pending (snd (approve_assessment verify_check dstr s trainee reviewer
          reviewer_username assessment now1 now2))))"
proof (cases "approve_assessment verify_check dstr s trainee reviewer
          reviewer_username assessment now1 now2")
  case (Pair res s')
  show ?thesis
  proof (cases res)
    case (Inl err)
    with Pair have "s' = s" by (auto dest: approve_assessment_failure)
    with Pair show ?thesis by (simp add: list_all2_same)
  next
    case (Inr ok)
    with Pair have run: "approve_assessment verify_check dstr s trainee reviewer
          reviewer_username assessment now1 now2 = (Inr ok, s')"
      by simp
    from approve_assessment_rows [OF run] obtain e where
      e: "get_assessment_tracker_entry s (u_id trainee) (a_id assessment) = Inr e"
      and st: "t_status e = ''Under review''"
      and rows: "trackers_tbl (pending s') =
        map (\<lambda>t. if t_id t = t_id e
               then t\<lparr>t_status := ''Approved'', t_last_updated := now1,
                      t_log := t_log e @ [[(''timestamp'', JStr (dstr now2)),
                                           (''status'', JStr ''Approved''),
                                           (''commit'', JStr (t_latest_commit e)),
                                           (''Reviewer'', JInt (r_id reviewer))]]\<rparr>
               else t) (trackers_tbl (pending s))"
      by (elim exE conjE)
    from e have mem: "e \<in> set (trackers_tbl (pending s))"
      using tracker_entry_cases [of s "u_id trainee" "a_id assessment"]
      by (auto dest: find_SomeD)
    have same: "t = e" if "t \<in> set (trackers_tbl (pending s))" "t_id t = t_id e" for t
      using assms that mem by (auto intro: distinct_id_unique)
    show ?thesis
      using same st
      by (auto simp: Pair rows list_all2_map2 list_all2_same)
  qed
qed

lemma init_assessment_tracker_rows:
  "\<exists>new_rows. trackers_tbl (pending (snd (init_assessment_tracker dstr s req uid now1 now2)))
        = trackers_tbl (pending s) @ new_rows
      \<and> (\<forall>t\<in>set new_rows. t_status t = ''Initiated'')"
  by (auto simp: init_assessment_tracker_def db_add_new_tracker_def db_commit_def Let_def
      split: sum.splits if_splits)

lemma assign_reviewer_status:
  assumes "entry \<in> set (trackers_tbl (pending s))"
  shows "map t_status (trackers_tbl (pending (snd (assign_reviewer dstr s entry ri now1 now2))))
       = map (\<lambda>t. if t_id t = t_id entry then ''Under review'' else t_status t)
           (trackers_tbl (pending s))"
proof -
  let ?assign = "\<lambda>t. t\<lparr>t_reviewer_id := Some (ri_reviewer_id ri), t_status := ''Under review'',
                        t_last_updated := now1\<rparr>"
  let ?rows1 = "map (\<lambda>t. if t_id t = t_id entry then ?assign t else t)
                  (trackers_tbl (pending s))"
  let ?s1 = "\<lparr>committed = (pending s)\<lparr>trackers_tbl := ?rows1\<rparr>,
              pending = (pending s)\<lparr>trackers_tbl := ?rows1\<rparr>\<rparr>"
  from assms have ex: "list_ex (\<lambda>t. t_id t = t_id entry) (trackers_tbl (pending s))"
    by (auto simp: list_ex_iff)
  have w: "db_add_tracker s entry ?assign
             = Inr (s\<lparr>pending := (pending s)\<lparr>trackers_tbl := ?rows1\<rparr>\<rparr>)"
    using ex by (rule db_add_tracker_update) simp
  from assms obtain x where
    fx: "find (\<lambda>t. t_id t = t_id entry) (trackers_tbl (pending s)) = Some x"
    using find_mem_Some [of entry _ "\<lambda>t. t_id t = t_id entry"] by auto
  then have "t_id x = t_id entry" by (auto dest: find_SomeD)
  with fx have "find (\<lambda>t. t_id t = t_id entry) ?rows1 = Some (?assign x)"
    by (rule find_map_assign) simp
  then have f1: "find (\<lambda>t. t_id t = t_id entry) (trackers_tbl (pending ?s1))
                   = Some (?assign x)"
    by simp
  have st1: "map t_status (trackers_tbl (pending ?s1))
       = map (\<lambda>t. if t_id t = t_id entry then ''Under review'' else t_status t)
           (trackers_tbl (pending s))"
    by (simp add: comp_def)
  have run: "assign_reviewer dstr s entry ri now1 now2 =
      (case update_assessment_log dstr ?s1 (t_id entry) (t_latest_commit (?assign x))
                (reviewer_info_dict ri) now2 of
         (Inl e, s'') \<Rightarrow> (Inl e, s'')
       | (Inr ok, s'') \<Rightarrow> (Inr True, s''))"
    using w f1
    by (simp add: assign_reviewer_def Let_def db_commit_pending
        get_assessment_tracker_entry_by_id_def)
  from update_assessment_log_result [OF f1, of dstr "t_latest_commit (?assign x)"
      "reviewer_info_dict ri" now2]
  have "map t_status (trackers_tbl (pending (snd
          (update_assessment_log dstr ?s1 (t_id entry) (t_latest_commit (?assign x))
             (reviewer_info_dict ri) now2))))
        = map t_status (trackers_tbl (pending ?s1))"
    by (auto simp: comp_def)
  moreover have "trackers_tbl (pending (snd (assign_reviewer dstr s entry ri now1 now2)))
      = trackers_tbl (pending (snd
          (update_assessment_log dstr ?s1 (t_id entry) (t_latest_commit (?assign x))
             (reviewer_info_dict ri) now2)))"
    unfolding run by (simp split: prod.splits sum.splits)
  ultimately show ?thesis
    using st1 by simp
qed

text \<open>
  The tracker ids stay distinct: a new row gets a key that no row has, and the other
  operations write to a row under its own key.
\<close>

lemma tracker_ids_preserved:
  assumes "distinct (map t_id (trackers_tbl (pending s)))"
  shows "distinct (map t_id (trackers_tbl (pending
            (snd (init_assessment_tracker dstr s req uid now1 now2)))))"
    and "distinct (map t_id (trackers_tbl (pending
            (snd (update_assessment_log dstr s entry_id latest_commit update_logs now1)))))"
    and "distinct (map t_id (trackers_tbl (pending
            (snd (approve_assessment verify_check dstr s trainee reviewer reviewer_username
               assessment now1 now2)))))"
proof -
  show "distinct (map t_id (trackers_tbl (pending
            (snd (init_assessment_tracker dstr s req uid now1 now2)))))"
    using assms next_id_fresh [of "map t_id (trackers_tbl (pending s))"]
    by (auto simp: init_assessment_tracker_def db_add_new_tracker_def db_commit_def Let_def
        split: sum.splits if_splits)
  show "distinct (map t_id (trackers_tbl (pending
            (snd (update_assessment_log dstr s entry_id latest_commit update_logs now1)))))"
  proof (cases "find (\<lambda>t. t_id t = entry_id) (trackers_tbl (pending s))")
    case None
    with assms show ?thesis by (simp add: update_assessment_log_missing)
  next
    case (Some entry)
    from update_assessment_log_result [OF Some, of dstr latest_commit update_logs now1] assms
    show ?thesis
      by (auto simp: comp_def if_distrib [of t_id] cong: if_cong)
  qed
  show "distinct (map t_id (trackers_tbl (pending
            (snd (approve_assessment verify_check dstr s trainee reviewer reviewer_username
               assessment now1 now2)))))"
  proof (cases "approve_assessment verify_check dstr s trainee reviewer reviewer_username
               assessment now1 now2")
    case (Pair res s')
    show ?thesis
    proof (cases res)
      case (Inl err)
      with Pair have "s' = s" by (auto dest: approve_assessment_failure)
      with Pair assms show ?thesis by simp
    next
      case (Inr ok)
      with Pair have run: "approve_assessment verify_check dstr s trainee reviewer
               reviewer_username assessment now1 now2 = (Inr ok, s')"
        by simp
      from approve_assessment_rows [OF run] obtain e where
        "get_assessment_tracker_entry s (u_id trainee) (a_id assessment) = Inr e"
        and "t_status e = ''Under review''"
        and "trackers_tbl (pending s') =
          map (\<lambda>t. if t_id t = t_id e
               then t\<lparr>t_status := ''Approved'', t_last_updated := now1,
                      t_log := t_log e @ [[(''timestamp'', JStr (dstr now2)),
                                           (''status'', JStr ''Approved''),
                                           (''commit'', JStr (t_latest_commit e)),
                                           (''Reviewer'', JInt (r_id reviewer))]]\<rparr>
               else t) (trackers_tbl (pending s))"
        by (elim exE conjE)
      with assms show ?thesis
        by (simp add: Pair comp_def if_distrib [of t_id] cong: if_cong)
    qed
  qed
qed

text \<open>
  C1, as the code has it. In a store whose tracker ids are distinct, three of the four
  operations never move a status backward: \<^verbatim>\<open>init_assessment_tracker\<close> leaves every
  row as it is and only adds rows of status Initiated, \<^verbatim>\<open>update_assessment_log\<close> leaves
  every status as it is, and \<^verbatim>\<open>approve_assessment\<close> changes a status only from Under
  review to Approved. \<^verbatim>\<open>assign_reviewer\<close> has no test of the status: applied to a row
  of the table, it sets the status of that row to Under review whatever it was, and
  leaves the status of the rows with another id.
\<close>

theorem status_transitions:
  assumes "distinct (map t_id (trackers_tbl (pending s)))"
  shows "(\<exists>new_rows.
            trackers_tbl (pending (snd (init_assessment_tracker dstr s req uid now1 now2)))
              = trackers_tbl (pending s) @ new_rows
            \<and> (\<forall>t\<in>set new_rows. t_status t = ''Initiated''))
     \<and> map t_status (trackers_tbl (pending (snd
            (update_assessment_log dstr s entry_id latest_commit update_logs now1))))
         = map t_status (trackers_tbl (pending s))
     \<and> list_all2
          (\<lambda>t t'. t_status t' = t_status t
                 \<or> t_status t = ''Under review'' \<and> t_status t' = ''Approved'')
          (trackers_tbl (pending s))
          (trackers_tbl (pending (snd (approve_assessment verify_check dstr s trainee reviewer
              reviewer_username assessment now1 now2))))
     \<and> (entry \<in> set (trackers_tbl (pending s)) \<longrightarrow>
          map t_status (trackers_tbl (pending (snd (assign_reviewer dstr s entry ri now1 now2))))
            = map (\<lambda>t. if t_id t = t_id entry then ''Under review'' else t_status t)
                (trackers_tbl (pending s)))"
  by (simp add: init_assessment_tracker_rows update_assessment_log_status [OF assms]
      approve_assessment_status [OF assms] assign_reviewer_status)

theorem status_transitions_witness:
  "distinct (map t_id (trackers_tbl (pending
       (ex_session [ex_entry (Some 7) ''Under review'' []] []))))
   \<and> ex_entry (Some 7) ''Under review'' []
       \<in> set (trackers_tbl (pending (ex_session [ex_entry (Some 7) ''Under review'' []] [])))
   \<and> map t_status (trackers_tbl (pending (snd
        (update_assessment_log ex_dstr (ex_session [ex_entry (Some 7) ''Under review'' []] []) 1
           ''def456'' [] ''2022-06-02 09:00:00''))))
       = [''Under review'']
   \<and> map t_status (trackers_tbl (pending (snd
        (approve_assessment (\<lambda>t. True) ex_dstr
           (ex_session [ex_entry (Some 7) ''Under review'' []] [])
           ex_trainee \<lparr>r_id = 7, r_user_id = 43\<rparr> ''bob'' ex_assessment
           ''2022-06-04 09:00:00'' ''2022-06-04 09:00:01''))))
       = [''Approved'']
   \<and> map t_status (trackers_tbl (pending (snd
        (assign_reviewer ex_dstr (ex_session [ex_entry (Some 7) ''Under review'' []] [])
           (ex_entry (Some 7) ''Under review'' [])
           \<lparr>ri_reviewer_id = 8, ri_reviewer_username = ''carol''\<rparr>
           ''2022-06-03 10:00:00'' ''2022-06-03 10:00:01''))))
       = [''Under review'']"
proof -
  have d: "distinct (map t_id (trackers_tbl (pending
       (ex_session [ex_entry (Some 7) ''Under review'' []] []))))"
    by (simp add: ex_defs)
  have m: "ex_entry (Some 7) ''Under review'' []
       \<in> set (trackers_tbl (pending (ex_session [ex_entry (Some 7) ''Under review'' []] [])))"
    by (simp add: ex_defs)
  have rows: "map t_status (trackers_tbl (pending
       (ex_session [ex_entry (Some 7) ''Under review'' []] []))) = [''Under review'']"
    by (simp add: ex_defs)
  have u: "map t_status (trackers_tbl (pending (snd
        (update_assessment_log ex_dstr (ex_session [ex_entry (Some 7) ''Under review'' []] []) 1
           ''def456'' [] ''2022-06-02 09:00:00''))))
       = [''Under review'']"
    using status_transitions [OF d, THEN conjunct2, THEN conjunct1, of ex_dstr 1 "''def456''" "[]"
        "''2022-06-02 09:00:00''"] rows
    by simp
  have a: "map t_status (trackers_tbl (pending (snd
        (approve_assessment (\<lambda>t. True) ex_dstr
           (ex_session [ex_entry (Some 7) ''Under review'' []] [])
           ex_trainee \<lparr>r_id = 7, r_user_id = 43\<rparr> ''bob'' ex_assessment
           ''2022-06-04 09:00:00'' ''2022-06-04 09:00:01''))))
       = [''Approved'']"
    by (simp add: approve_assessment_def db_add_tracker_def commit_taken_def db_commit_def
        Let_def lookup_defs ex_defs)
  have r: "map t_status (trackers_tbl (pending (snd
        (assign_reviewer ex_dstr (ex_session [ex_entry (Some 7) ''Under review'' []] [])
           (ex_entry (Some 7) ''Under review'' [])
           \<lparr>ri_reviewer_id = 8, ri_reviewer_username = ''carol''\<rparr>
           ''2022-06-03 10:00:00'' ''2022-06-03 10:00:01''))))
       = [''Under review'']"
    using status_transitions [OF d, THEN conjunct2, THEN conjunct2, THEN conjunct2, THEN mp, OF m,
        of ex_dstr "\<lparr>ri_reviewer_id = 8, ri_reviewer_username = ''carol''\<rparr>"
        "''2022-06-03 10:00:00''" "''2022-06-03 10:00:01''"]
    by (simp add: ex_defs)
  from d m u a r show ?thesis by blast
qed

text \<open>
  C1 as stated fails: \<^verbatim>\<open>assign_reviewer\<close> applied to an entry whose status is Approved
  succeeds and leaves it Under review.
\<close>

theorem assign_reviewer_regresses_counterexample:
  "map t_status (trackers_tbl (pending (ex_session [ex_entry (Some 7) ''Approved'' []] [])))
       = [''Approved'']
   \<and> assign_reviewer ex_dstr (ex_session [ex_entry (Some 7) ''Approved'' []] [])
         (ex_entry (Some 7) ''Approved'' [])
         \<lparr>ri_reviewer_id = 8, ri_reviewer_username = ''carol''\<rparr>
         ''2022-06-03 10:00:00'' ''2022-06-03 10:00:01''
       = (Inr True,
          ex_session [\<lparr>t_id = 1, t_user_id = 42, t_assessment_id = 1, t_reviewer_id = Some 8,
               t_status = ''Under review'', t_latest_commit = ''abc123'',
               t_last_updated = ''2022-06-03 10:00:01'',
               t_log = [[(''reviewer_id'', JInt 8), (''reviewer_username'', JStr ''carol''),
                         (''commit'', JStr ''abc123''),
                         (''timestamp'', JStr ''2022-06-03 10:00:01'')]]\<rparr>] [])"
  by (simp add: assign_reviewer_def update_assessment_log_def db_add_tracker_def
      commit_taken_def db_commit_def get_assessment_tracker_entry_by_id_def
      reviewer_info_dict_def Let_def ex_defs)

section \<open>Properties of the badge catalog synchronisation\<close>

lemma map_of_convert_fields:
  "map_of (convert_fields strptime flds) k = map_option (convert_field strptime) (map_of flds k)"
  by (induction flds) auto

lemma keys_convert_fields: "map fst (convert_fields strptime flds) = map fst flds"
  by (induction flds) auto

lemma map_of_py_str:
  "map_of (map (\<lambda>(k, v). (k, py_str other v)) badge) k = map_option (py_str other) (map_of badge k)"
  by (induction badge) auto

lemma keys_py_str: "map fst (map (\<lambda>(k, v). (k, py_str other v)) badge) = map fst badge"
  by (induction badge) auto

lemma map_of_merge_case:
  "map_of (AList.merge row flds) k =
     (case map_of flds k of Some v \<Rightarrow> Some v | None \<Rightarrow> map_of row k)"
  by (simp add: merge_conv' map_add_def)

text \<open>
  The step of the loop on a record that is accepted: it succeeds and commits; by the
  rows that the name selects, it either appends the converted fields as a new row or
  merges them into every selected row.
\<close>

lemma sync_badge_accepted:
  assumes "badge_accepted env badge"
  shows "\<exists>nm named. map_of badge ''name'' = Some nm
     \<and> name_filter (e_bind env) nm = Inr named
     \<and> sync_badge env s badge =
         Inr \<lparr>committed = (pending s)\<lparr>badges_tbl :=
                 (if filter named (badges_tbl (pending s)) = []
                  then badges_tbl (pending s) @
                         [convert_fields (e_strptime env)
                            (map (\<lambda>(k, v). (k, py_str (e_str env) v)) badge)]
                  else map (\<lambda>row. if named row
                              then AList.merge row (convert_fields (e_strptime env)
                                     (map (\<lambda>(k, v). (k, py_str (e_str env) v)) badge))
                              else row)
                         (badges_tbl (pending s)))\<rparr>,
               pending = (pending s)\<lparr>badges_tbl :=
                 (if filter named (badges_tbl (pending s)) = []
                  then badges_tbl (pending s) @
                         [convert_fields (e_strptime env)
                            (map (\<lambda>(k, v). (k, py_str (e_str env) v)) badge)]
                  else map (\<lambda>row. if named row
                              then AList.merge row (convert_fields (e_strptime env)
                                     (map (\<lambda>(k, v). (k, py_str (e_str env) v)) badge))
                              else row)
                         (badges_tbl (pending s)))\<rparr>\<rparr>"
proof -
  from assms obtain nm named where
    nm: "map_of badge ''name'' = Some nm"
    and named: "name_filter (e_bind env) nm = Inr named"
    and keys: "list_all (\<lambda>k. k \<in> set (e_columns env)) (map fst badge)"
    by (auto simp: badge_accepted_def split: option.splits sum.splits)
  let ?flds = "convert_fields (e_strptime env) (map (\<lambda>(k, v). (k, py_str (e_str env) v)) badge)"
  have k: "map fst ?flds = map fst badge"
    by (simp only: keys_convert_fields keys_py_str)
  from keys have none: "find (\<lambda>k. k \<notin> set (e_columns env)) (map fst ?flds) = None"
    unfolding k by (auto simp: find_None_iff list_all_iff)
  from keys have nex: "\<not> list_ex (\<lambda>k. k \<notin> set (e_columns env)) (map fst ?flds)"
    unfolding k by (auto simp: list_ex_iff list_all_iff)
  have "sync_badge env s badge =
      (if filter named (badges_tbl (pending s)) = []
       then Inr (db_commit (s\<lparr>pending := (pending s)\<lparr>badges_tbl :=
                   badges_tbl (pending s) @ [?flds]\<rparr>\<rparr>))
       else Inr (db_commit (s\<lparr>pending := (pending s)\<lparr>badges_tbl :=
                   map (\<lambda>row. if named row then AList.merge row ?flds else row)
                     (badges_tbl (pending s))\<rparr>\<rparr>)))"
    using nm named none nex
    by (simp add: sync_badge_def Let_def db_add_badge_def query_update_badges_def
        del: map_map)
  then have "sync_badge env s badge =
      Inr \<lparr>committed = (pending s)\<lparr>badges_tbl :=
                 (if filter named (badges_tbl (pending s)) = []
                  then badges_tbl (pending s) @ [?flds]
                  else map (\<lambda>row. if named row then AList.merge row ?flds else row)
                         (badges_tbl (pending s)))\<rparr>,
            pending = (pending s)\<lparr>badges_tbl :=
                 (if filter named (badges_tbl (pending s)) = []
                  then badges_tbl (pending s) @ [?flds]
                  else map (\<lambda>row. if named row then AList.merge row ?flds else row)
                         (badges_tbl (pending s)))\<rparr>\<rparr>"
    by (simp add: db_commit_pending)
  with nm named show ?thesis by blast
qed

lemma sync_badge_not_accepted:
  assumes "\<not> badge_accepted env badge"
  shows "\<exists>e. sync_badge env s badge = Inl e"
proof (cases "map_of badge ''name''")
  case None
  then show ?thesis by (simp add: sync_badge_def)
next
  case (Some nm)
  show ?thesis
  proof (cases "name_filter (e_bind env) nm")
    case (Inl e)
    with Some show ?thesis by (simp add: sync_badge_def Let_def)
  next
    case (Inr named)
    let ?flds = "convert_fields (e_strptime env)
                   (map (\<lambda>(k, v). (k, py_str (e_str env) v)) badge)"
    have k: "map fst ?flds = map fst badge"
      by (simp only: keys_convert_fields keys_py_str)
    from assms Some Inr have "\<not> list_all (\<lambda>k. k \<in> set (e_columns env)) (map fst badge)"
      by (simp add: badge_accepted_def)
    then have bad: "list_ex (\<lambda>k. k \<notin> set (e_columns env)) (map fst ?flds)"
      unfolding k by (auto simp: list_ex_iff list_all_iff)
    then obtain k0 where "find (\<lambda>k. k \<notin> set (e_columns env)) (map fst ?flds) = Some k0"
      by (cases "find (\<lambda>k. k \<notin> set (e_columns env)) (map fst ?flds)")
         (auto simp: find_None_iff list_ex_iff)
    with bad Some Inr show ?thesis
      by (simp add: sync_badge_def Let_def db_add_badge_def query_update_badges_def
          del: map_map)
  qed
qed

text \<open>
  Whether the loop ends in an error is decided by the records alone: it fails at the
  first record that is not accepted, and at nothing else.
\<close>

lemma sync_loop_fails_iff:
  "isl (fst (sync_loop env s badgelst)) \<longleftrightarrow> \<not> list_all (badge_accepted env) badgelst"
proof (induction badgelst arbitrary: s)
  case Nil
  show ?case by simp
next
  case (Cons badge badgelst)
  show ?case
  proof (cases "badge_accepted env badge")
    case True
    from sync_badge_accepted [OF True, of s] obtain s' where "sync_badge env s badge = Inr s'"
      by blast
    with True Cons.IH [of s'] show ?thesis by simp
  next
    case False
    from sync_badge_not_accepted [OF False, of s] obtain e where "sync_badge env s badge = Inl e"
      by blast
    with False show ?thesis by simp
  qed
qed

lemma sync_loop_append:
  "sync_loop env s (xs @ ys) =
     (case sync_loop env s xs of
        (Inl e, s') \<Rightarrow> (Inl e, s')
      | (Inr u, s') \<Rightarrow> sync_loop env s' ys)"
  by (induction xs arbitrary: s) (auto split: sum.splits)

text \<open>
  The records before position \<open>i\<close> and the record at \<open>i\<close> are accepted: the sync of
  the whole catalog runs through the session \<open>s_i\<close> that the first \<open>i\<close> records
  leave, does the step of record \<open>i\<close> there, and goes on from the session of that step
  with the records after \<open>i\<close>.
\<close>

lemma sync_badges_at:
  assumes "i < length badgelst"
    and "list_all (badge_accepted env) (take (Suc i) badgelst)"
  shows "\<exists>s_i s_i'. sync_badges env s (Inr (take i badgelst)) = (Inr (), s_i)
     \<and> sync_badge env s_i (badgelst ! i) = Inr s_i'
     \<and> sync_badges env s (Inr (take (Suc i) badgelst)) = (Inr (), s_i')
     \<and> sync_badges env s (Inr badgelst) = sync_badges env s_i' (Inr (drop (Suc i) badgelst))"
proof -
  from assms(1) have split: "take (Suc i) badgelst = take i badgelst @ [badgelst ! i]"
    by (simp add: take_Suc_conv_app_nth)
  with assms(2) have pre: "list_all (badge_accepted env) (take i badgelst)"
    and acc: "badge_accepted env (badgelst ! i)"
    by simp_all
  from pre have "\<not> isl (fst (sync_loop env s (take i badgelst)))"
    by (simp add: sync_loop_fails_iff)
  then have "\<exists>s_i. sync_loop env s (take i badgelst) = (Inr (), s_i)"
    by (cases "sync_loop env s (take i badgelst)"; cases "fst (sync_loop env s (take i badgelst))")
       auto
  then obtain s_i where si: "sync_loop env s (take i badgelst) = (Inr (), s_i)" ..
  from sync_badge_accepted [OF acc, of s_i] obtain s_i' where
    step: "sync_badge env s_i (badgelst ! i) = Inr s_i'"
    by blast
  have upto: "sync_loop env s (take (Suc i) badgelst) = (Inr (), s_i')"
    by (simp add: split sync_loop_append si step)
  have "badgelst = take (Suc i) badgelst @ drop (Suc i) badgelst"
    by simp
  then have "sync_loop env s badgelst
      = sync_loop env s (take (Suc i) badgelst @ drop (Suc i) badgelst)"
    by simp
  also have "\<dots> = sync_loop env s_i' (drop (Suc i) badgelst)"
    by (simp only: sync_loop_append upto) simp
  finally have "sync_loop env s badgelst = sync_loop env s_i' (drop (Suc i) badgelst)" .
  with si step upto show ?thesis
    by (simp add: sync_badges_def)
qed

lemma convert_field_chain:
  "convert_field strptime v =
     (case strptime v ''%Y-%m-%dT%H:%M:%S.%fZ'' of
        Some d \<Rightarrow> FDate d
      | None \<Rightarrow>
          (case strptime v ''%Y-%m-%dT%H:%M:%SZ'' of
             Some d \<Rightarrow> FDate d
           | None \<Rightarrow> FStr v))"
  by (simp add: convert_field_def fmt_frac_def fmt_nofrac_def split: option.splits)

lemma map_of_synced_fields:
  "map_of (convert_fields strptime (map (\<lambda>(k, v). (k, py_str other v)) badge)) k =
     (case map_of badge k of
        None \<Rightarrow> None
      | Some v \<Rightarrow> Some (convert_field strptime (py_str other v)))"
  by (simp only: map_of_convert_fields map_of_py_str) (simp split: option.splits)

lemma badge_accepted_strptime:
  "badge_accepted (env\<lparr>e_strptime := f\<rparr>) badge = badge_accepted env badge"
  by (simp add: badge_accepted_def cong: option.case_cong sum.case_cong)

lemma sync_badges_fails_iff:
  "isl (fst (sync_badges env s fetched)) \<longleftrightarrow>
     (case fetched of
        Inl e \<Rightarrow> True
      | Inr badgelst \<Rightarrow> \<not> list_all (badge_accepted env) badgelst)"
  by (cases fetched) (simp_all add: sync_badges_def sync_loop_fails_iff)

text \<open>
  C8. Take a record of the fetched catalog that the loop reaches and takes: it and
  every record before it has a name that the store can compare and only keys that the
  class accepts. \<^verbatim>\<open>sync_badges\<close> passes through the session \<open>s_i\<close> before that
  record and the session \<open>s_i'\<close> after it, which is committed. In the rows of \<open>s_i'\<close>,
  for every key of the record, of value \<open>v\<close>, the stored value is made from the
  string \<^verbatim>\<open>str(v)\<close> as follows: the datetime that \<^verbatim>\<open>strptime\<close> gives for the format
  with fractional seconds; failing that, the datetime it gives for the format without;
  failing both, the string itself. This holds in every row that the record's name
  selects, when there is one, and otherwise in the one row that is appended, whose keys
  are those of the record, in their order. And no parse failure makes the sync fail:
  for every outcome of the fetch, it ends in an error or not exactly as it would if no
  string at all were a timestamp.
\<close>

theorem sync_badges_parse_chain:
  "(i < length badgelst \<and> list_all (badge_accepted env) (take (Suc i) badgelst) \<longrightarrow>
      (\<exists>s_i s_i' nm named.
          sync_badges env s (Inr (take i badgelst)) = (Inr (), s_i)
        \<and> sync_badges env s (Inr (take (Suc i) badgelst)) = (Inr (), s_i')
        \<and> sync_badges env s (Inr badgelst)
            = sync_badges env s_i' (Inr (drop (Suc i) badgelst))
        \<and> committed s_i' = pending s_i'
        \<and> map_of (badgelst ! i) ''name'' = Some nm
        \<and> name_filter (e_bind env) nm = Inr named
        \<and> (if \<exists>row\<in>set (badges_tbl (pending s_i)). named row
           then length (badges_tbl (pending s_i')) = length (badges_tbl (pending s_i))
              \<and> (\<forall>j<length (badges_tbl (pending s_i)).
                    named (badges_tbl (pending s_i) ! j) \<longrightarrow>
                    (\<forall>k v. map_of (badgelst ! i) k = Some v \<longrightarrow>
                       map_of (badges_tbl (pending s_i') ! j) k = Some
                         (case e_strptime env (py_str (e_str env) v) ''%Y-%m-%dT%H:%M:%S.%fZ'' of
                            Some d \<Rightarrow> FDate d
                          | None \<Rightarrow>
                              (case e_strptime env (py_str (e_str env) v) ''%Y-%m-%dT%H:%M:%SZ'' of
                                 Some d \<Rightarrow> FDate d
                               | None \<Rightarrow> FStr (py_str (e_str env) v)))))
           else (\<exists>new. badges_tbl (pending s_i') = badges_tbl (pending s_i) @ [new]
              \<and> map fst new = map fst (badgelst ! i)
              \<and> (\<forall>k. map_of new k =
                   (case map_of (badgelst ! i) k of
                      None \<Rightarrow> None
                    | Some v \<Rightarrow> Some
                        (case e_strptime env (py_str (e_str env) v) ''%Y-%m-%dT%H:%M:%S.%fZ'' of
                           Some d \<Rightarrow> FDate d
                         | None \<Rightarrow>
                             (case e_strptime env (py_str (e_str env) v) ''%Y-%m-%dT%H:%M:%SZ'' of
                                Some d \<Rightarrow> FDate d
                              | None \<Rightarrow> FStr (py_str (e_str env) v)))))))))
   \<and> (isl (fst (sync_badges env s fetched)) \<longleftrightarrow>
        isl (fst (sync_badges (env\<lparr>e_strptime := \<lambda>v fmt. None\<rparr>) s fetched)))"
proof (rule conjI, rule impI, elim conjE)
  assume i: "i < length badgelst"
    and pre: "list_all (badge_accepted env) (take (Suc i) badgelst)"
  let ?badge = "badgelst ! i"
  let ?flds = "convert_fields (e_strptime env)
                 (map (\<lambda>(k, v). (k, py_str (e_str env) v)) ?badge)"
  from i pre have acc: "badge_accepted env ?badge"
    by (simp add: take_Suc_conv_app_nth)
  from sync_badges_at [OF i pre, of s] obtain s_i s_i' where
    before: "sync_badges env s (Inr (take i badgelst)) = (Inr (), s_i)"
    and step: "sync_badge env s_i ?badge = Inr s_i'"
    and after: "sync_badges env s (Inr (take (Suc i) badgelst)) = (Inr (), s_i')"
    and rest: "sync_badges env s (Inr badgelst)
                 = sync_badges env s_i' (Inr (drop (Suc i) badgelst))"
    by blast
  let ?rows = "badges_tbl (pending s_i)"
  from sync_badge_accepted [OF acc, of s_i] step obtain nm named where
    nm: "map_of ?badge ''name'' = Some nm"
    and named: "name_filter (e_bind env) nm = Inr named"
    and s_i': "s_i' = \<lparr>committed = (pending s_i)\<lparr>badges_tbl :=
                 (if filter named ?rows = []
                  then ?rows @ [?flds]
                  else map (\<lambda>row. if named row then AList.merge row ?flds else row) ?rows)\<rparr>,
               pending = (pending s_i)\<lparr>badges_tbl :=
                 (if filter named ?rows = []
                  then ?rows @ [?flds]
                  else map (\<lambda>row. if named row then AList.merge row ?flds else row) ?rows)\<rparr>\<rparr>"
    by auto
  from s_i' have comm: "committed s_i' = pending s_i'"
    by simp
  from s_i' have rows': "badges_tbl (pending s_i') =
      (if filter named ?rows = []
       then ?rows @ [?flds]
       else map (\<lambda>row. if named row then AList.merge row ?flds else row) ?rows)"
    by simp
  have keys: "map fst ?flds = map fst ?badge"
    by (simp only: keys_convert_fields keys_py_str)
  have content: "(if \<exists>row\<in>set ?rows. named row
           then length (badges_tbl (pending s_i')) = length ?rows
              \<and> (\<forall>j<length ?rows.
                    named (?rows ! j) \<longrightarrow>
                    (\<forall>k v. map_of ?badge k = Some v \<longrightarrow>
                       map_of (badges_tbl (pending s_i') ! j) k = Some
                         (case e_strptime env (py_str (e_str env) v) ''%Y-%m-%dT%H:%M:%S.%fZ'' of
                            Some d \<Rightarrow> FDate d
                          | None \<Rightarrow>
                              (case e_strptime env (py_str (e_str env) v) ''%Y-%m-%dT%H:%M:%SZ'' of
                                 Some d \<Rightarrow> FDate d
                               | None \<Rightarrow> FStr (py_str (e_str env) v)))))
           else (\<exists>new. badges_tbl (pending s_i') = ?rows @ [new]
              \<and> map fst new = map fst ?badge
              \<and> (\<forall>k. map_of new k =
                   (case map_of ?badge k of
                      None \<Rightarrow> None
                    | Some v \<Rightarrow> Some
                        (case e_strptime env (py_str (e_str env) v) ''%Y-%m-%dT%H:%M:%S.%fZ'' of
                           Some d \<Rightarrow> FDate d
                         | None \<Rightarrow>
                             (case e_strptime env (py_str (e_str env) v) ''%Y-%m-%dT%H:%M:%SZ'' of
                                Some d \<Rightarrow> FDate d
                              | None \<Rightarrow> FStr (py_str (e_str env) v)))))))"
  proof (cases "\<exists>row\<in>set ?rows. named row")
    case True
    then have ne: "filter named ?rows \<noteq> []"
      by (auto simp: filter_empty_conv)
    with rows' have r: "badges_tbl (pending s_i') =
        map (\<lambda>row. if named row then AList.merge row ?flds else row) ?rows"
      by simp
    show ?thesis
      unfolding r using True
      by (simp add: map_of_merge_case map_of_synced_fields convert_field_chain
          del: map_map)
  next
    case False
    then have "filter named ?rows = []"
      by (auto simp: filter_empty_conv)
    with rows' have r: "badges_tbl (pending s_i') = ?rows @ [?flds]"
      by simp
    have "\<forall>k. map_of ?flds k =
                   (case map_of ?badge k of
                      None \<Rightarrow> None
                    | Some v \<Rightarrow> Some
                        (case e_strptime env (py_str (e_str env) v) ''%Y-%m-%dT%H:%M:%S.%fZ'' of
                           Some d \<Rightarrow> FDate d
                         | None \<Rightarrow>
                             (case e_strptime env (py_str (e_str env) v) ''%Y-%m-%dT%H:%M:%SZ'' of
                                Some d \<Rightarrow> FDate d
                              | None \<Rightarrow> FStr (py_str (e_str env) v))))"
      by (simp only: map_of_synced_fields convert_field_chain) simp
    with r keys False show ?thesis
      by (simp only: if_False) blast
  qed
  from before after rest comm nm named content
  show "\<exists>s_i s_i' nm named.
          sync_badges env s (Inr (take i badgelst)) = (Inr (), s_i)
        \<and> sync_badges env s (Inr (take (Suc i) badgelst)) = (Inr (), s_i')
        \<and> sync_badges env s (Inr badgelst)
            = sync_badges env s_i' (Inr (drop (Suc i) badgelst))
        \<and> committed s_i' = pending s_i'
        \<and> map_of (badgelst ! i) ''name'' = Some nm
        \<and> name_filter (e_bind env) nm = Inr named
        \<and> (if \<exists>row\<in>set (badges_tbl (pending s_i)). named row
           then length (badges_tbl (pending s_i')) = length (badges_tbl (pending s_i))
              \<and> (\<forall>j<length (badges_tbl (pending s_i)).
                    named (badges_tbl (pending s_i) ! j) \<longrightarrow>
                    (\<forall>k v. map_of (badgelst ! i) k = Some v \<longrightarrow>
                       map_of (badges_tbl (pending s_i') ! j) k = Some
                         (case e_strptime env (py_str (e_str env) v) ''%Y-%m-%dT%H:%M:%S.%fZ'' of
                            Some d \<Rightarrow> FDate d
                          | None \<Rightarrow>
                              (case e_strptime env (py_str (e_str env) v) ''%Y-%m-%dT%H:%M:%SZ'' of
                                 Some d \<Rightarrow> FDate d
                               | None \<Rightarrow> FStr (py_str (e_str env) v)))))
           else (\<exists>new. badges_tbl (pending s_i') = badges_tbl (pending s_i) @ [new]
              \<and> map fst new = map fst (badgelst ! i)
              \<and> (\<forall>k. map_of new k =
                   (case map_of (badgelst ! i) k of
                      None \<Rightarrow> None
                    | Some v \<Rightarrow> Some
                        (case e_strptime env (py_str (e_str env) v) ''%Y-%m-%dT%H:%M:%S.%fZ'' of
                           Some d \<Rightarrow> FDate d
                         | None \<Rightarrow>
                             (case e_strptime env (py_str (e_str env) v) ''%Y-%m-%dT%H:%M:%SZ'' of
                                Some d \<Rightarrow> FDate d
                              | None \<Rightarrow> FStr (py_str (e_str env) v)))))))"
    by (intro exI conjI)
next
  show "isl (fst (sync_badges env s fetched)) \<longleftrightarrow>
        isl (fst (sync_badges (env\<lparr>e_strptime := \<lambda>v fmt. None\<rparr>) s fetched))"
    by (simp only: sync_badges_fails_iff badge_accepted_strptime [abs_def])
qed


theorem sync_badges_parse_chain_witness:
  "(1::nat) < length
        [[(''name'', JStr ''Python I''), (''createdAt'', JStr ''2022-01-05T10:00:00.500000Z''),
          (''updatedAt'', JStr ''2022-01-05T10:00:00Z''), (''expires'', JStr ''2022-01-05'')],
         [(''name'', JStr ''Python I''), (''createdAt'', JStr ''2022-01-05T10:00:00Z''),
          (''description'', JNull)]]
   \<and> list_all (badge_accepted ex_env) (take (Suc 1)
        [[(''name'', JStr ''Python I''), (''createdAt'', JStr ''2022-01-05T10:00:00.500000Z''),
          (''updatedAt'', JStr ''2022-01-05T10:00:00Z''), (''expires'', JStr ''2022-01-05'')],
         [(''name'', JStr ''Python I''), (''createdAt'', JStr ''2022-01-05T10:00:00Z''),
          (''description'', JNull)]])
   \<and> sync_badges ex_env (ex_session [] []) (Inr (take 1
        [[(''name'', JStr ''Python I''), (''createdAt'', JStr ''2022-01-05T10:00:00.500000Z''),
          (''updatedAt'', JStr ''2022-01-05T10:00:00Z''), (''expires'', JStr ''2022-01-05'')],
         [(''name'', JStr ''Python I''), (''createdAt'', JStr ''2022-01-05T10:00:00Z''),
          (''description'', JNull)]]))
     = (Inr (), ex_session []
          [[(''name'', FStr ''Python I''),
            (''createdAt'', FDate ''2022-01-05 10:00:00.500000''),
            (''updatedAt'', FDate ''2022-01-05 10:00:00''),
            (''expires'', FStr ''2022-01-05'')]])
   \<and> sync_badges ex_env (ex_session [] []) (Inr
        [[(''name'', JStr ''Python I''), (''createdAt'', JStr ''2022-01-05T10:00:00.500000Z''),
          (''updatedAt'', JStr ''2022-01-05T10:00:00Z''), (''expires'', JStr ''2022-01-05'')],
         [(''name'', JStr ''Python I''), (''createdAt'', JStr ''2022-01-05T10:00:00Z''),
          (''description'', JNull)]])
     = (Inr (), ex_session []
          [[(''name'', FStr ''Python I''),
            (''createdAt'', FDate ''2022-01-05 10:00:00''),
            (''updatedAt'', FDate ''2022-01-05 10:00:00''),
            (''expires'', FStr ''2022-01-05''),
            (''description'', FStr ''None'')]])
   \<and> map_of (badges_tbl (pending (snd (sync_badges ex_env (ex_session [] []) (Inr
        [[(''name'', JStr ''Python I''), (''createdAt'', JStr ''2022-01-05T10:00:00.500000Z''),
          (''updatedAt'', JStr ''2022-01-05T10:00:00Z''), (''expires'', JStr ''2022-01-05'')],
         [(''name'', JStr ''Python I''), (''createdAt'', JStr ''2022-01-05T10:00:00Z''),
          (''description'', JNull)]])))) ! 0) ''createdAt''
     = Some (FDate ''2022-01-05 10:00:00'')"
proof -
  let ?cat = "[[(''name'', JStr ''Python I''), (''createdAt'', JStr ''2022-01-05T10:00:00.500000Z''),
          (''updatedAt'', JStr ''2022-01-05T10:00:00Z''), (''expires'', JStr ''2022-01-05'')],
         [(''name'', JStr ''Python I''), (''createdAt'', JStr ''2022-01-05T10:00:00Z''),
          (''description'', JNull)]]"
  let ?s0 = "ex_session [] [] :: string session"
  have h1: "(1::nat) < length ?cat"
    by simp
  have h2: "list_all (badge_accepted ex_env) (take (Suc 1) ?cat)"
    by (simp add: badge_accepted_def ex_env_def)
  have run1: "sync_badges ex_env ?s0 (Inr (take 1 ?cat))
     = (Inr (), ex_session []
          [[(''name'', FStr ''Python I''),
            (''createdAt'', FDate ''2022-01-05 10:00:00.500000''),
            (''updatedAt'', FDate ''2022-01-05 10:00:00''),
            (''expires'', FStr ''2022-01-05'')]])"
    by (simp add: sync_defs ex_defs)
  have run2: "sync_badges ex_env ?s0 (Inr ?cat)
     = (Inr (), ex_session []
          [[(''name'', FStr ''Python I''),
            (''createdAt'', FDate ''2022-01-05 10:00:00''),
            (''updatedAt'', FDate ''2022-01-05 10:00:00''),
            (''expires'', FStr ''2022-01-05''),
            (''description'', FStr ''None'')]])"
    by (simp add: sync_defs ex_defs)
  from sync_badges_parse_chain [of 1 ?cat ex_env ?s0 "Inr ?cat", THEN conjunct1, THEN mp,
      OF conjI, OF h1 h2]
  obtain s_i s_i' nm named where
    before: "sync_badges ex_env ?s0 (Inr (take 1 ?cat)) = (Inr (), s_i)"
    and rest: "sync_badges ex_env ?s0 (Inr ?cat)
                 = sync_badges ex_env s_i' (Inr (drop (Suc 1) ?cat))"
    and nm: "map_of (?cat ! 1) ''name'' = Some nm"
    and named: "name_filter (e_bind ex_env) nm = Inr named"
    and content: "(if \<exists>row\<in>set (badges_tbl (pending s_i)). named row
           then length (badges_tbl (pending s_i')) = length (badges_tbl (pending s_i))
              \<and> (\<forall>j<length (badges_tbl (pending s_i)).
                    named (badges_tbl (pending s_i) ! j) \<longrightarrow>
                    (\<forall>k v. map_of (?cat ! 1) k = Some v \<longrightarrow>
                       map_of (badges_tbl (pending s_i') ! j) k = Some
                         (case e_strptime ex_env (py_str (e_str ex_env) v) ''%Y-%m-%dT%H:%M:%S.%fZ'' of
                            Some d \<Rightarrow> FDate d
                          | None \<Rightarrow>
                              (case e_strptime ex_env (py_str (e_str ex_env) v) ''%Y-%m-%dT%H:%M:%SZ'' of
                                 Some d \<Rightarrow> FDate d
                               | None \<Rightarrow> FStr (py_str (e_str ex_env) v)))))
           else (\<exists>new. badges_tbl (pending s_i') = badges_tbl (pending s_i) @ [new]
              \<and> map fst new = map fst (?cat ! 1)
              \<and> (\<forall>k. map_of new k =
                   (case map_of (?cat ! 1) k of
                      None \<Rightarrow> None
                    | Some v \<Rightarrow> Some
                        (case e_strptime ex_env (py_str (e_str ex_env) v) ''%Y-%m-%dT%H:%M:%S.%fZ'' of
                           Some d \<Rightarrow> FDate d
                         | None \<Rightarrow>
                             (case e_strptime ex_env (py_str (e_str ex_env) v) ''%Y-%m-%dT%H:%M:%SZ'' of
                                Some d \<Rightarrow> FDate d
                              | None \<Rightarrow> FStr (py_str (e_str ex_env) v)))))))"
    by (elim exE conjE)
  from before run1 have s_i: "s_i = ex_session []
          [[(''name'', FStr ''Python I''),
            (''createdAt'', FDate ''2022-01-05 10:00:00.500000''),
            (''updatedAt'', FDate ''2022-01-05 10:00:00''),
            (''expires'', FStr ''2022-01-05'')]]"
    by simp
  from nm have "nm = JStr ''Python I''"
    by simp
  with named have nd: "named = (\<lambda>row. map_of row ''name'' = Some (FStr ''Python I''))"
    by simp
  have sel: "\<exists>row\<in>set (badges_tbl (pending s_i)). named row"
    by (simp add: s_i nd ex_defs)
  from content have "length (badges_tbl (pending s_i')) = length (badges_tbl (pending s_i))
              \<and> (\<forall>j<length (badges_tbl (pending s_i)).
                    named (badges_tbl (pending s_i) ! j) \<longrightarrow>
                    (\<forall>k v. map_of (?cat ! 1) k = Some v \<longrightarrow>
                       map_of (badges_tbl (pending s_i') ! j) k = Some
                         (case e_strptime ex_env (py_str (e_str ex_env) v) ''%Y-%m-%dT%H:%M:%S.%fZ'' of
                            Some d \<Rightarrow> FDate d
                          | None \<Rightarrow>
                              (case e_strptime ex_env (py_str (e_str ex_env) v) ''%Y-%m-%dT%H:%M:%SZ'' of
                                 Some d \<Rightarrow> FDate d
                               | None \<Rightarrow> FStr (py_str (e_str ex_env) v)))))"
    unfolding if_P [OF sel] .
  then have "0 < length (badges_tbl (pending s_i)) \<longrightarrow>
                    named (badges_tbl (pending s_i) ! 0) \<longrightarrow>
                    map_of (?cat ! 1) ''createdAt'' = Some (JStr ''2022-01-05T10:00:00Z'') \<longrightarrow>
                       map_of (badges_tbl (pending s_i') ! 0) ''createdAt'' = Some
                         (case e_strptime ex_env (py_str (e_str ex_env) (JStr ''2022-01-05T10:00:00Z'')) ''%Y-%m-%dT%H:%M:%S.%fZ'' of
                            Some d \<Rightarrow> FDate d
                          | None \<Rightarrow>
                              (case e_strptime ex_env (py_str (e_str ex_env) (JStr ''2022-01-05T10:00:00Z'')) ''%Y-%m-%dT%H:%M:%SZ'' of
                                 Some d \<Rightarrow> FDate d
                               | None \<Rightarrow> FStr (py_str (e_str ex_env) (JStr ''2022-01-05T10:00:00Z''))))"
    by blast
  then have stored: "map_of (badges_tbl (pending s_i') ! 0) ''createdAt''
      = Some (FDate ''2022-01-05 10:00:00'')"
    by (simp add: s_i nd ex_defs ex_env_def ex_strptime_def)
  from rest have "snd (sync_badges ex_env ?s0 (Inr ?cat)) = s_i'"
    by (simp add: sync_badges_def)
  with stored have last: "map_of (badges_tbl (pending (snd (sync_badges ex_env ?s0 (Inr ?cat)))) ! 0)
      ''createdAt'' = Some (FDate ''2022-01-05 10:00:00'')"
    by simp
  from h1 h2 run1 run2 last show ?thesis
    by (intro conjI)
qed

text \<open>
  A record that is not accepted ends the sync: the records before it are written, the
  error is raised at it, and no record after it is looked at.
\<close>

lemma sync_badges_stops_at:
  assumes "i < length badgelst"
    and "list_all (badge_accepted env) (take i badgelst)"
    and "\<not> badge_accepted env (badgelst ! i)"
  shows "\<exists>e s_i. sync_badges env s (Inr (take i badgelst)) = (Inr (), s_i)
     \<and> sync_badge env s_i (badgelst ! i) = Inl e
     \<and> sync_badges env s (Inr badgelst) = (Inl e, db_rollback s_i)"
proof -
  from assms(2) have "\<not> isl (fst (sync_loop env s (take i badgelst)))"
    by (simp add: sync_loop_fails_iff)
  then have "\<exists>s_i. sync_loop env s (take i badgelst) = (Inr (), s_i)"
    by (cases "sync_loop env s (take i badgelst)"; cases "fst (sync_loop env s (take i badgelst))")
       auto
  then obtain s_i where si: "sync_loop env s (take i badgelst) = (Inr (), s_i)" ..
  from sync_badge_not_accepted [OF assms(3), of s_i] obtain e where
    step: "sync_badge env s_i (badgelst ! i) = Inl e"
    by blast
  from assms(1) have "badgelst = take i badgelst @ (badgelst ! i # drop (Suc i) badgelst)"
    by (simp add: id_take_nth_drop [symmetric])
  then have "sync_loop env s badgelst
      = sync_loop env s (take i badgelst @ (badgelst ! i # drop (Suc i) badgelst))"
    by simp
  also have "\<dots> = (Inl e, db_rollback s_i)"
    by (simp only: sync_loop_append si) (simp add: step)
  finally have "sync_loop env s badgelst = (Inl e, db_rollback s_i)" .
  with si step show ?thesis
    by (simp add: sync_badges_def)
qed

lemma sync_badges_nameless_head_example:
  "sync_badges ex_env
      (ex_session [] [[(''entityId'', FStr ''E1''), (''name'', FStr ''A'')]])
      (Inr [[(''entityId'', JStr ''E7'')],
            [(''entityId'', JStr ''E1''), (''name'', JStr ''A''), (''image'', JStr ''a.png'')]])
    = (Inl (KeyError ''name''),
       ex_session [] [[(''entityId'', FStr ''E1''), (''name'', FStr ''A'')]])"
  by (simp add: sync_defs ex_defs)

text \<open>
  C3, as the code has it. The key of the upsert is the record's \<^verbatim>\<open>name\<close>, not its
  external entity id, and the upsert is done for every record that the loop reaches and
  takes: the record and every record before it has a name that the store can compare and
  only keys that the class accepts. For such a record, \<^verbatim>\<open>sync_badges\<close> passes
  through the session \<open>s_i\<close> that the records before it leave; the step of the loop on
  the record succeeds there and commits; \<^verbatim>\<open>sync_badges\<close> goes on with the records
  after it from the session \<open>s_i'\<close> of the step; and the step touches the badges table
  only. The rows are selected by the value of \<^verbatim>\<open>name\<close> as fetched: a string selects
  the rows that hold it, \<^verbatim>\<open>None\<close> the rows without a name. When some row is selected,
  no row is added: every selected row takes the record's converted fields and keeps its
  other columns, and every other row stays as it is. When no row is selected, the
  converted fields are appended as one new row.
\<close>

theorem sync_badges_upsert_by_name:
  assumes "i < length badgelst"
    and "list_all (badge_accepted env) (take (Suc i) badgelst)"
  shows "\<exists>s_i s_i' nm named.
      sync_badges env s (Inr (take i badgelst)) = (Inr (), s_i)
      \<and> sync_badge env s_i (badgelst ! i) = Inr s_i'
      \<and> sync_badges env s (Inr (take (Suc i) badgelst)) = (Inr (), s_i')
      \<and> sync_badges env s (Inr badgelst)
          = sync_badges env s_i' (Inr (drop (Suc i) badgelst))
      \<and> map_of (badgelst ! i) ''name'' = Some nm
      \<and> name_filter (e_bind env) nm = Inr named
      \<and> (\<forall>n. nm = JStr n \<longrightarrow> named = (\<lambda>row. map_of row ''name'' = Some (FStr n)))
      \<and> (nm = JNull \<longrightarrow> named = (\<lambda>row. map_of row ''name'' = None))
      \<and> committed s_i' = pending s_i'
      \<and> pending s_i' = (pending s_i)\<lparr>badges_tbl := badges_tbl (pending s_i')\<rparr>
      \<and> (if \<exists>row\<in>set (badges_tbl (pending s_i)). named row
         then length (badges_tbl (pending s_i')) = length (badges_tbl (pending s_i))
            \<and> (\<forall>j<length (badges_tbl (pending s_i)).
                  if named (badges_tbl (pending s_i) ! j)
                  then \<forall>k. map_of (badges_tbl (pending s_i') ! j) k =
                         (case map_of (convert_fields (e_strptime env)
                                  (map (\<lambda>(k, v). (k, py_str (e_str env) v)) (badgelst ! i))) k of
                            Some v \<Rightarrow> Some v
                          | None \<Rightarrow> map_of (badges_tbl (pending s_i) ! j) k)
                  else badges_tbl (pending s_i') ! j = badges_tbl (pending s_i) ! j)
         else badges_tbl (pending s_i') = badges_tbl (pending s_i) @
                [convert_fields (e_strptime env)
                   (map (\<lambda>(k, v). (k, py_str (e_str env) v)) (badgelst ! i))])"
proof -
  let ?badge = "badgelst ! i"
  let ?flds = "convert_fields (e_strptime env)
                 (map (\<lambda>(k, v). (k, py_str (e_str env) v)) ?badge)"
  from assms have acc: "badge_accepted env ?badge"
    by (simp add: take_Suc_conv_app_nth)
  from sync_badges_at [OF assms, of s] obtain s_i s_i' where
    before: "sync_badges env s (Inr (take i badgelst)) = (Inr (), s_i)"
    and step: "sync_badge env s_i ?badge = Inr s_i'"
    and after: "sync_badges env s (Inr (take (Suc i) badgelst)) = (Inr (), s_i')"
    and rest: "sync_badges env s (Inr badgelst)
                 = sync_badges env s_i' (Inr (drop (Suc i) badgelst))"
    by blast
  let ?rows = "badges_tbl (pending s_i)"
  from sync_badge_accepted [OF acc, of s_i] step obtain nm named where
    nm: "map_of ?badge ''name'' = Some nm"
    and named: "name_filter (e_bind env) nm = Inr named"
    and s_i': "s_i' = \<lparr>committed = (pending s_i)\<lparr>badges_tbl :=
                 (if filter named ?rows = []
                  then ?rows @ [?flds]
                  else map (\<lambda>row. if named row then AList.merge row ?flds else row) ?rows)\<rparr>,
               pending = (pending s_i)\<lparr>badges_tbl :=
                 (if filter named ?rows = []
                  then ?rows @ [?flds]
                  else map (\<lambda>row. if named row then AList.merge row ?flds else row) ?rows)\<rparr>\<rparr>"
    by auto
  from named have str: "\<forall>n. nm = JStr n \<longrightarrow> named = (\<lambda>row. map_of row ''name'' = Some (FStr n))"
    by auto
  from named have null: "nm = JNull \<longrightarrow> named = (\<lambda>row. map_of row ''name'' = None)"
    by auto
  from s_i' have comm: "committed s_i' = pending s_i'"
    by simp
  from s_i' have frame: "pending s_i' = (pending s_i)\<lparr>badges_tbl := badges_tbl (pending s_i')\<rparr>"
    by simp
  from s_i' have rows': "badges_tbl (pending s_i') =
      (if filter named ?rows = []
       then ?rows @ [?flds]
       else map (\<lambda>row. if named row then AList.merge row ?flds else row) ?rows)"
    by simp
  have content: "(if \<exists>row\<in>set (badges_tbl (pending s_i)). named row
         then length (badges_tbl (pending s_i')) = length (badges_tbl (pending s_i))
            \<and> (\<forall>j<length (badges_tbl (pending s_i)).
                  if named (badges_tbl (pending s_i) ! j)
                  then \<forall>k. map_of (badges_tbl (pending s_i') ! j) k =
                         (case map_of (convert_fields (e_strptime env)
                                  (map (\<lambda>(k, v). (k, py_str (e_str env) v)) (badgelst ! i))) k of
                            Some v \<Rightarrow> Some v
                          | None \<Rightarrow> map_of (badges_tbl (pending s_i) ! j) k)
                  else badges_tbl (pending s_i') ! j = badges_tbl (pending s_i) ! j)
         else badges_tbl (pending s_i') = badges_tbl (pending s_i) @
                [convert_fields (e_strptime env)
                   (map (\<lambda>(k, v). (k, py_str (e_str env) v)) (badgelst ! i))])"
  proof (cases "\<exists>row\<in>set ?rows. named row")
    case True
    then have "filter named ?rows \<noteq> []"
      by (auto simp: filter_empty_conv)
    with rows' have r: "badges_tbl (pending s_i') =
        map (\<lambda>row. if named row then AList.merge row ?flds else row) ?rows"
      by simp
    show ?thesis
      unfolding r using True
      by (simp add: map_of_merge_case del: map_map)
  next
    case False
    then have "filter named ?rows = []"
      by (auto simp: filter_empty_conv)
    with rows' have r: "badges_tbl (pending s_i') = ?rows @ [?flds]"
      by simp
    from False show ?thesis
      unfolding r by (simp del: map_map)
  qed
  from before step after rest nm named str null comm frame content show ?thesis
    by (intro exI conjI)
qed

theorem sync_badges_upsert_by_name_witness:
  "(1::nat) < length
        [[(''entityId'', JStr ''E9''), (''name'', JStr ''Z''), (''description'', JStr ''zed'')],
         [(''entityId'', JStr ''E2''), (''name'', JStr ''A''), (''image'', JStr ''a.png'')]]
   \<and> list_all (badge_accepted ex_env) (take (Suc 1)
        [[(''entityId'', JStr ''E9''), (''name'', JStr ''Z''), (''description'', JStr ''zed'')],
         [(''entityId'', JStr ''E2''), (''name'', JStr ''A''), (''image'', JStr ''a.png'')]])
   \<and> sync_badges ex_env
        (ex_session [] [[(''entityId'', FStr ''E1''), (''name'', FStr ''A''),
                          (''description'', FStr ''first'')],
                         [(''entityId'', FStr ''E9''), (''name'', FStr ''Z'')]])
        (Inr [[(''entityId'', JStr ''E9''), (''name'', JStr ''Z''), (''description'', JStr ''zed'')],
         [(''entityId'', JStr ''E2''), (''name'', JStr ''A''), (''image'', JStr ''a.png'')]])
     = (Inr (), ex_session [] [[(''entityId'', FStr ''E2''), (''name'', FStr ''A''),
                          (''description'', FStr ''first''), (''image'', FStr ''a.png'')],
                         [(''entityId'', FStr ''E9''), (''name'', FStr ''Z''),
                          (''description'', FStr ''zed'')]])
   \<and> length (badges_tbl (pending (snd (sync_badges ex_env
        (ex_session [] [[(''entityId'', FStr ''E1''), (''name'', FStr ''A''),
                          (''description'', FStr ''first'')],
                         [(''entityId'', FStr ''E9''), (''name'', FStr ''Z'')]])
        (Inr [[(''entityId'', JStr ''E9''), (''name'', JStr ''Z''), (''description'', JStr ''zed'')],
         [(''entityId'', JStr ''E2''), (''name'', JStr ''A''), (''image'', JStr ''a.png'')]]))))) = 2"
proof -
  let ?cat = "[[(''entityId'', JStr ''E9''), (''name'', JStr ''Z''), (''description'', JStr ''zed'')],
         [(''entityId'', JStr ''E2''), (''name'', JStr ''A''), (''image'', JStr ''a.png'')]]"
  let ?s0 = "ex_session [] [[(''entityId'', FStr ''E1''), (''name'', FStr ''A''),
                          (''description'', FStr ''first'')],
                         [(''entityId'', FStr ''E9''), (''name'', FStr ''Z'')]] :: string session"
  have h1: "(1::nat) < length ?cat"
    by simp
  have h2: "list_all (badge_accepted ex_env) (take (Suc 1) ?cat)"
    by (simp add: badge_accepted_def ex_env_def)
  have run1: "sync_badges ex_env ?s0 (Inr (take 1 ?cat))
     = (Inr (), ex_session [] [[(''entityId'', FStr ''E1''), (''name'', FStr ''A''),
                          (''description'', FStr ''first'')],
                         [(''entityId'', FStr ''E9''), (''name'', FStr ''Z''),
                          (''description'', FStr ''zed'')]])"
    by (simp add: sync_defs ex_defs)
  have run2: "sync_badges ex_env ?s0 (Inr ?cat)
     = (Inr (), ex_session [] [[(''entityId'', FStr ''E2''), (''name'', FStr ''A''),
                          (''description'', FStr ''first''), (''image'', FStr ''a.png'')],
                         [(''entityId'', FStr ''E9''), (''name'', FStr ''Z''),
                          (''description'', FStr ''zed'')]])"
    by (simp add: sync_defs ex_defs)
  from sync_badges_upsert_by_name [OF h1 h2, of ?s0]
  obtain s_i s_i' nm named where
    before: "sync_badges ex_env ?s0 (Inr (take 1 ?cat)) = (Inr (), s_i)"
    and rest: "sync_badges ex_env ?s0 (Inr ?cat)
                 = sync_badges ex_env s_i' (Inr (drop (Suc 1) ?cat))"
    and nm: "map_of (?cat ! 1) ''name'' = Some nm"
    and str: "\<forall>n. nm = JStr n \<longrightarrow> named = (\<lambda>row. map_of row ''name'' = Some (FStr n))"
    and content: "(if \<exists>row\<in>set (badges_tbl (pending s_i)). named row
         then length (badges_tbl (pending s_i')) = length (badges_tbl (pending s_i))
            \<and> (\<forall>j<length (badges_tbl (pending s_i)).
                  if named (badges_tbl (pending s_i) ! j)
                  then \<forall>k. map_of (badges_tbl (pending s_i') ! j) k =
                         (case map_of (convert_fields (e_strptime ex_env)
                                  (map (\<lambda>(k, v). (k, py_str (e_str ex_env) v)) (?cat ! 1))) k of
                            Some v \<Rightarrow> Some v
                          | None \<Rightarrow> map_of (badges_tbl (pending s_i) ! j) k)
                  else badges_tbl (pending s_i') ! j = badges_tbl (pending s_i) ! j)
         else badges_tbl (pending s_i') = badges_tbl (pending s_i) @
                [convert_fields (e_strptime ex_env)
                   (map (\<lambda>(k, v). (k, py_str (e_str ex_env) v)) (?cat ! 1))])"
    by (elim exE conjE)
  from before run1 have s_i: "s_i = ex_session [] [[(''entityId'', FStr ''E1''), (''name'', FStr ''A''),
                          (''description'', FStr ''first'')],
                         [(''entityId'', FStr ''E9''), (''name'', FStr ''Z''),
                          (''description'', FStr ''zed'')]]"
    by simp
  from nm have "nm = JStr ''A''"
    by simp
  with str have nd: "named = (\<lambda>row. map_of row ''name'' = Some (FStr ''A''))"
    by simp
  have sel: "\<exists>row\<in>set (badges_tbl (pending s_i)). named row"
    by (simp add: s_i nd ex_defs)
  from content have "length (badges_tbl (pending s_i')) = length (badges_tbl (pending s_i))"
    unfolding if_P [OF sel] by (rule conjunct1)
  then have len: "length (badges_tbl (pending s_i')) = 2"
    by (simp add: s_i ex_defs)
  from rest have "snd (sync_badges ex_env ?s0 (Inr ?cat)) = s_i'"
    by (simp add: sync_badges_def)
  with len have last: "length (badges_tbl (pending (snd (sync_badges ex_env ?s0 (Inr ?cat))))) = 2"
    by simp
  from h1 h2 run2 last show ?thesis
    by (intro conjI)
qed

text \<open>
  C3 as stated fails in both directions. A local badge with the record's external id
  \<^verbatim>\<open>E1\<close> but another name is not updated: a second row is inserted. And a record whose
  external id \<^verbatim>\<open>E2\<close> no local badge has is not inserted when a local badge has its
  name: that badge, of external id \<^verbatim>\<open>E1\<close>, is overwritten.
\<close>

theorem sync_badges_by_external_id_counterexample:
  "sync_badges ex_env
      (ex_session [] [[(''entityId'', FStr ''E1''), (''name'', FStr ''A'')]])
      (Inr [[(''entityId'', JStr ''E1''), (''name'', JStr ''B'')]])
    = (Inr (), ex_session [] [[(''entityId'', FStr ''E1''), (''name'', FStr ''A'')],
                               [(''entityId'', FStr ''E1''), (''name'', FStr ''B'')]])
   \<and> sync_badges ex_env
      (ex_session [] [[(''entityId'', FStr ''E1''), (''name'', FStr ''A'')]])
      (Inr [[(''entityId'', JStr ''E2''), (''name'', JStr ''A'')]])
    = (Inr (), ex_session [] [[(''entityId'', FStr ''E2''), (''name'', FStr ''A'')]])"
  by (simp add: sync_defs ex_defs)

text \<open>
  Each record is committed on its own. When a record that is accepted is followed by
  one without a name, the sync fails with the first record's write stored: the session
  it returns is the session after the first record.
\<close>

lemma sync_badges_commit_per_record:
  assumes "badge_accepted env badge1" and "map_of badge2 ''name'' = None"
  shows "\<exists>s1. sync_badge env s badge1 = Inr s1
     \<and> committed s1 = pending s1
     \<and> sync_badges env s (Inr (badge1 # badge2 # badgelst))
         = (Inl (KeyError ''name''), s1)"
proof -
  from sync_badge_accepted [OF assms(1), of s] obtain s1 where
    s1: "sync_badge env s badge1 = Inr s1" and comm: "committed s1 = pending s1"
    by auto
  from assms(2) have "sync_badge env s1 badge2 = Inl (KeyError ''name'')"
    by (simp add: sync_badge_def)
  with s1 comm have "sync_badges env s (Inr (badge1 # badge2 # badgelst))
         = (Inl (KeyError ''name''), s1)"
    by (cases s1) (simp add: sync_badges_def db_rollback_def)
  with s1 comm show ?thesis
    by blast
qed

text \<open>
  C2 at a concrete input: a catalog of two records, the second without a name, synced
  into an empty badges table. The first record is inserted and committed; the second
  raises \<^verbatim>\<open>KeyError\<close>; the rollback has nothing left to undo, and the error is raised
  with the first badge stored.
\<close>

theorem sync_badges_partial_commit:
  "sync_badges ex_env (ex_session [] [])
      (Inr [[(''entityId'', JStr ''E1''), (''name'', JStr ''A'')], [(''entityId'', JStr ''E2'')]])
    = (Inl (KeyError ''name''),
       ex_session [] [[(''entityId'', FStr ''E1''), (''name'', FStr ''A'')]])
   \<and> badges_tbl (committed (ex_session [] [])) = []
   \<and> badges_tbl (committed
        (ex_session [] [[(''entityId'', FStr ''E1''), (''name'', FStr ''A'')]]))
       = [[(''entityId'', FStr ''E1''), (''name'', FStr ''A'')]]"
  by (simp add: sync_defs ex_defs)

end
